theory Spec2Isabelle
  imports Main
begin

section \<open>Python strings\<close>

text \<open>
  The script \<^verbatim>\<open>ascn-aws-agent.py\<close> works on Python \<^verbatim>\<open>str\<close> values. A string is
  modelled as a list of 8-bit code points (the Latin-1 range of Unicode); \<open>py_ord\<close> reads the
  code point of a character. Code points above 255 are outside the model.
\<close>

definition py_ord :: "char \<Rightarrow> nat" where
  "py_ord c = of_char c"

text \<open>\<^verbatim>\<open>s.startswith(p)\<close>, written with the prefix first.\<close>

fun startswith :: "string \<Rightarrow> string \<Rightarrow> bool" where
  "startswith [] s = True"
| "startswith (p # ps) [] = False"
| "startswith (p # ps) (c # cs) = (p = c \<and> startswith ps cs)"

text \<open>\<^verbatim>\<open>needle in hay\<close> on two strings: \<open>needle\<close> occurs in \<open>hay\<close> as a substring.\<close>

fun py_in :: "string \<Rightarrow> string \<Rightarrow> bool" where
  "py_in needle [] = (needle = [])"
| "py_in needle (c # cs) = (startswith needle (c # cs) \<or> py_in needle cs)"

text \<open>
  \<^verbatim>\<open>str.lower()\<close>: on the Latin-1 range the upper-case letters are A..Z and
  U+00C0..U+00DE without the multiplication sign U+00D7; each maps to the code point 32 above.
\<close>

definition lower_char :: "char \<Rightarrow> char" where
  "lower_char c =
     (if (65 \<le> py_ord c \<and> py_ord c \<le> 90) \<or> (192 \<le> py_ord c \<and> py_ord c \<le> 222 \<and> py_ord c \<noteq> 215)
      then char_of (py_ord c + 32) else c)"

definition py_lower :: "string \<Rightarrow> string" where
  "py_lower s = map lower_char s"

text \<open>
  \<^verbatim>\<open>str.isspace()\<close> on one character: tab, line feed, vertical tab, form feed, carriage
  return, the four separators U+001C..U+001F, space, next line U+0085 and no-break space U+00A0.
\<close>

definition isspace :: "char \<Rightarrow> bool" where
  "isspace c = (py_ord c \<in> {9, 10, 11, 12, 13, 28, 29, 30, 31, 32, 133, 160})"

text \<open>
  \<^verbatim>\<open>command.split()\<close> with no separator: the scan keeps the word read so far in \<open>cur\<close>;
  a whitespace character ends the word, and an empty word is never emitted.
\<close>

fun split_scan :: "string \<Rightarrow> string \<Rightarrow> string list" where
  "split_scan cur [] = (if cur = [] then [] else [cur])"
| "split_scan cur (c # cs) =
     (if isspace c then (if cur = [] then split_scan [] cs else cur # split_scan [] cs)
      else split_scan (cur @ [c]) cs)"

definition py_split :: "string \<Rightarrow> string list" where
  "py_split s = split_scan [] s"

text \<open>\<^verbatim>\<open>sep.join(parts)\<close>.\<close>

fun py_join :: "string \<Rightarrow> string list \<Rightarrow> string" where
  "py_join sep [] = []"
| "py_join sep [x] = x"
| "py_join sep (x # y # ys) = x @ sep @ py_join sep (y # ys)"

subsection \<open>\<^verbatim>\<open>repr\<close> of a string\<close>

definition hex_digit :: "nat \<Rightarrow> char" where
  "hex_digit n = ''0123456789abcdef'' ! (n mod 16)"

text \<open>
  \<^verbatim>\<open>str.isprintable()\<close> on one character of the Latin-1 range: the ASCII range from space to
  tilde, and U+00A1..U+00FF without the soft hyphen U+00AD.
\<close>

definition isprintable :: "char \<Rightarrow> bool" where
  "isprintable c = ((32 \<le> py_ord c \<and> py_ord c < 127) \<or> (161 \<le> py_ord c \<and> py_ord c \<noteq> 173))"

text \<open>
  One character inside \<^verbatim>\<open>repr(s)\<close>, where \<open>q\<close> is the quote character chosen for the
  whole string: the quote and the backslash get a backslash, tab, line feed and carriage return
  their letter, any other unprintable character its two hex digits.
\<close>

definition escape_char :: "char \<Rightarrow> char \<Rightarrow> string" where
  "escape_char q c =
     (if c = q \<or> c = CHR 0x5C then [CHR 0x5C, c]
      else if c = CHR 0x09 then [CHR 0x5C, CHR ''t'']
      else if c = CHR 0x0A then [CHR 0x5C, CHR ''n'']
      else if c = CHR 0x0D then [CHR 0x5C, CHR ''r'']
      else if isprintable c then [c]
      else [CHR 0x5C, CHR ''x'', hex_digit (py_ord c div 16), hex_digit (py_ord c mod 16)])"

text \<open>
  The quote of \<^verbatim>\<open>repr(s)\<close> is the single quote, unless the string holds a single quote and
  no double quote.
\<close>

definition repr_quote :: "string \<Rightarrow> char" where
  "repr_quote s = (if CHR 0x27 \<in> set s \<and> CHR 0x22 \<notin> set s then CHR 0x22 else CHR 0x27)"

definition repr_str :: "string \<Rightarrow> string" where
  "repr_str s = repr_quote s # concat (map (escape_char (repr_quote s)) s) @ [repr_quote s]"

function digits :: "nat \<Rightarrow> string" where
  "digits n = (if n < 10 then [hex_digit n] else digits (n div 10) @ [hex_digit (n mod 10)])"
  by pat_completeness auto
termination
  by (relation "measure id") auto

definition repr_int :: "int \<Rightarrow> string" where
  "repr_int i = (if i < 0 then CHR ''-'' # digits (nat (- i)) else digits (nat i))"

section \<open>Python values and exceptions\<close>

text \<open>
  The provider SDK answers with nested dictionaries and lists. \<open>pyval\<close> holds the values the
  script can meet on the paths it reads: \<^verbatim>\<open>None\<close>, booleans, integers, strings, lists, and
  dictionaries keyed by strings (kept in insertion order).
\<close>

datatype pyval =
    PNone
  | PBool bool
  | PInt int
  | PStr string
  | PList "pyval list"
  | PDict "(string \<times> pyval) list"

text \<open>
  An exception object: the name of its class and the text \<^verbatim>\<open>str(e)\<close> gives.
\<close>

datatype py_exception = PyException (exc_class: string) (exc_text: string)

text \<open>
  The classes that derive from \<^verbatim>\<open>BaseException\<close> without deriving from \<^verbatim>\<open>Exception\<close>:
  the built-in ones and the \<^verbatim>\<open>CancelledError\<close> of the standard library. Every other class
  name stands for a subclass of \<^verbatim>\<open>Exception\<close>.
\<close>

definition base_only_classes :: "string list" where
  "base_only_classes =
     [''BaseException'', ''BaseExceptionGroup'', ''GeneratorExit'', ''KeyboardInterrupt'',
      ''SystemExit'', ''CancelledError'']"

text \<open>\<^verbatim>\<open>isinstance(e, Exception)\<close>: what a clause \<^verbatim>\<open>except Exception\<close> tests.\<close>

definition isinstance_Exception :: "py_exception \<Rightarrow> bool" where
  "isinstance_Exception e = (exc_class e \<notin> set base_only_classes)"

fun py_repr :: "pyval \<Rightarrow> string" where
  "py_repr PNone = ''None''"
| "py_repr (PBool b) = (if b then ''True'' else ''False'')"
| "py_repr (PInt i) = repr_int i"
| "py_repr (PStr s) = repr_str s"
| "py_repr (PList xs) = ''['' @ py_join '', '' (map py_repr xs) @ '']''"
| "py_repr (PDict kvs) =
     ''{'' @ py_join '', '' (map (\<lambda>kv. repr_str (fst kv) @ '': '' @ py_repr (snd kv)) kvs) @ ''}''"

text \<open>\<^verbatim>\<open>str(v)\<close>, which an f-string applies to each value it formats.\<close>

fun py_str :: "pyval \<Rightarrow> string" where
  "py_str (PStr s) = s"
| "py_str v = py_repr v"

text \<open>The truth value of \<^verbatim>\<open>if v:\<close>.\<close>

fun py_bool :: "pyval \<Rightarrow> bool" where
  "py_bool PNone = False"
| "py_bool (PBool b) = b"
| "py_bool (PInt i) = (i \<noteq> 0)"
| "py_bool (PStr s) = (s \<noteq> [])"
| "py_bool (PList xs) = (xs \<noteq> [])"
| "py_bool (PDict kvs) = (kvs \<noteq> [])"

definition type_error :: "string \<Rightarrow> py_exception" where
  "type_error msg = PyException ''TypeError'' msg"

definition not_subscriptable :: "string \<Rightarrow> py_exception" where
  "not_subscriptable ty = type_error ([CHR 0x27] @ ty @ [CHR 0x27] @ '' object is not subscriptable'')"

definition not_iterable :: "string \<Rightarrow> py_exception" where
  "not_iterable ty = type_error ([CHR 0x27] @ ty @ [CHR 0x27] @ '' object is not iterable'')"

text \<open>\<^verbatim>\<open>v['key']\<close>: a subscript by a string.\<close>

fun getitem_key :: "pyval \<Rightarrow> string \<Rightarrow> py_exception + pyval" where
  "getitem_key (PDict kvs) k =
     (case map_of kvs k of
        Some v \<Rightarrow> Inr v
      | None \<Rightarrow> Inl (PyException ''KeyError'' (repr_str k)))"
| "getitem_key (PList xs) k = Inl (type_error ''list indices must be integers or slices, not str'')"
| "getitem_key (PStr s) k =
     Inl (type_error (''string indices must be integers, not '' @ [CHR 0x27] @ ''str'' @ [CHR 0x27]))"
| "getitem_key PNone k = Inl (not_subscriptable ''NoneType'')"
| "getitem_key (PBool b) k = Inl (not_subscriptable ''bool'')"
| "getitem_key (PInt i) k = Inl (not_subscriptable ''int'')"

text \<open>\<^verbatim>\<open>v[i]\<close>: a subscript by a non-negative integer literal.\<close>

fun getitem_idx :: "pyval \<Rightarrow> nat \<Rightarrow> py_exception + pyval" where
  "getitem_idx (PList xs) i =
     (if i < length xs then Inr (xs ! i)
      else Inl (PyException ''IndexError'' ''list index out of range''))"
| "getitem_idx (PStr s) i =
     (if i < length s then Inr (PStr [s ! i])
      else Inl (PyException ''IndexError'' ''string index out of range''))"
| "getitem_idx (PDict kvs) i = Inl (PyException ''KeyError'' (repr_int (int i)))"
| "getitem_idx PNone i = Inl (not_subscriptable ''NoneType'')"
| "getitem_idx (PBool b) i = Inl (not_subscriptable ''bool'')"
| "getitem_idx (PInt j) i = Inl (not_subscriptable ''int'')"

text \<open>The items a \<^verbatim>\<open>for\<close> clause walks over: a dictionary yields its keys, a string its characters.\<close>

fun py_iter :: "pyval \<Rightarrow> py_exception + pyval list" where
  "py_iter (PList xs) = Inr xs"
| "py_iter (PDict kvs) = Inr (map (\<lambda>kv. PStr (fst kv)) kvs)"
| "py_iter (PStr s) = Inr (map (\<lambda>c. PStr [c]) s)"
| "py_iter PNone = Inl (not_iterable ''NoneType'')"
| "py_iter (PBool b) = Inl (not_iterable ''bool'')"
| "py_iter (PInt i) = Inl (not_iterable ''int'')"

text \<open>Sequencing of steps that may raise: the first exception ends the computation.\<close>

definition and_then :: "py_exception + 'a \<Rightarrow> ('a \<Rightarrow> py_exception + 'b) \<Rightarrow> py_exception + 'b" where
  "and_then m f = (case m of Inl e \<Rightarrow> Inl e | Inr v \<Rightarrow> f v)"

text \<open>A list comprehension \<^verbatim>\<open>[f(x) for x in xs]\<close> whose element expression may raise.\<close>

fun comprehension :: "('a \<Rightarrow> py_exception + 'b) \<Rightarrow> 'a list \<Rightarrow> py_exception + 'b list" where
  "comprehension f [] = Inr []"
| "comprehension f (x # xs) =
     and_then (f x) (\<lambda>y. and_then (comprehension f xs) (\<lambda>ys. Inr (y # ys)))"

section \<open>The outside world, the module state and the trace of effects\<close>

text \<open>
  A service handle as \<^verbatim>\<open>boto3.client(...)\<close> returns it: the service it is bound to, the
  credential triple it was built from, and \<open>ident\<close>, the identity of the object.
\<close>

record client =
  service :: string
  key_id :: "string option"
  secret :: "string option"
  region :: "string option"
  ident :: nat

text \<open>
  The result of \<^verbatim>\<open>subprocess.run(..., capture_output=True, text=True)\<close>.
\<close>

record completed_process =
  returncode :: int
  stdout :: string
  stderr :: string

text \<open>
  The environment handed to the child process: a dictionary from names to values, where a
  value may be \<^verbatim>\<open>None\<close> (what \<^verbatim>\<open>os.getenv\<close> returned for a variable that is not set).
\<close>

type_synonym child_env = "string \<Rightarrow> string option option"

text \<open>The five tools, each with the arguments of one invocation.\<close>

datatype tool_call =
    AwsCliCommand string
  | ListRoute53HostedZones
  | GetEc2InstanceSize string
  | GetUserPermissions string
  | ListS3Buckets

text \<open>
  Everything the script does to the outside, in the order it does it: a handle construction,
  a provider API call on a handle (method name and keyword arguments), a child process
  (argument vector and environment), a call of the prompt-and-model chain, the invocation of a
  tool, and a line written by \<^verbatim>\<open>print\<close>.
\<close>

datatype event =
    Boto3Client string "string option" "string option" "string option"
  | ApiCall client string "(string \<times> pyval) list"
  | SubprocessRun "string list" child_env
  | ChainInvoke string
  | ToolInvoke tool_call
  | Print string

text \<open>
  The outcome of each external call, as a function of what the script passes to it. The
  theorems hold for every \<open>world\<close>: the script decides nothing about these outcomes.
  \<open>error_print_outcome\<close> is the outcome of the \<^verbatim>\<open>print\<close> of line 158, which stands in the
  handler of the iteration and so outside any \<^verbatim>\<open>try\<close>: \<open>None\<close> when it returns, the
  exception when it raises (a closed or broken standard output). The prints inside the
  \<^verbatim>\<open>try\<close> of an iteration are taken to return.
\<close>

record world =
  client_outcome :: "string \<Rightarrow> string option \<Rightarrow> string option \<Rightarrow> string option \<Rightarrow> py_exception option"
  api_outcome :: "client \<Rightarrow> string \<Rightarrow> (string \<times> pyval) list \<Rightarrow> py_exception + pyval"
  run_outcome :: "string list \<Rightarrow> child_env \<Rightarrow> py_exception + completed_process"
  chain_outcome :: "string \<Rightarrow> py_exception + string"
  error_print_outcome :: "string \<Rightarrow> py_exception option"

text \<open>
  The module-level names of the script (lines 14 to 24), the process environment, the next
  free object identity and the trace of effects so far.
\<close>

record state =
  aws_access_key_id :: "string option"
  aws_secret_access_key :: "string option"
  region_name :: "string option"
  ec2 :: client
  route53 :: client
  iam :: client
  os_environ :: "string \<Rightarrow> string option"
  next_ident :: nat
  trace :: "event list"

definition emit :: "event \<Rightarrow> state \<Rightarrow> state" where
  "emit ev s = s\<lparr>trace := trace s @ [ev]\<rparr>"

text \<open>
  \<^verbatim>\<open>boto3.client(svc, aws_access_key_id=k, aws_secret_access_key=sk, region_name=r)\<close>: the
  call is recorded; it raises or returns a new object.
\<close>

definition boto3_client ::
  "world \<Rightarrow> string \<Rightarrow> string option \<Rightarrow> string option \<Rightarrow> string option \<Rightarrow> state
     \<Rightarrow> (py_exception + client) \<times> state" where
  "boto3_client w svc k sk r s =
     (case client_outcome w svc k sk r of
        Some e \<Rightarrow> (Inl e, emit (Boto3Client svc k sk r) s)
      | None \<Rightarrow>
          (Inr \<lparr>service = svc, key_id = k, secret = sk, region = r, ident = next_ident s\<rparr>,
           (emit (Boto3Client svc k sk r) s)\<lparr>next_ident := Suc (next_ident s)\<rparr>))"

text \<open>A method call on a service handle.\<close>

definition call_api ::
  "world \<Rightarrow> client \<Rightarrow> string \<Rightarrow> (string \<times> pyval) list \<Rightarrow> state \<Rightarrow> (py_exception + pyval) \<times> state" where
  "call_api w c method kwargs s = (api_outcome w c method kwargs, emit (ApiCall c method kwargs) s)"

text \<open>
  \<^verbatim>\<open>try: ... except Exception as e: return handler(e)\<close> around a body that returns a string.
  The clause catches an exception that is an instance of \<^verbatim>\<open>Exception\<close>; any other
  exception passes through it and leaves the function.
\<close>

definition try_except ::
  "(py_exception + string) \<times> state \<Rightarrow> (py_exception \<Rightarrow> string) \<Rightarrow> (py_exception + string) \<times> state" where
  "try_except body handler =
     (case fst body of
        Inl e \<Rightarrow> (if isinstance_Exception e then (Inr (handler e), snd body) else (Inl e, snd body))
      | Inr v \<Rightarrow> (Inr v, snd body))"

section \<open>Bootstrap (lines 13 to 24)\<close>

text \<open>
  The three credentials are read with \<^verbatim>\<open>os.getenv\<close>, then the compute, DNS and identity
  handles are built in this order. An exception of a constructor ends the import.
\<close>

definition bootstrap :: "world \<Rightarrow> (string \<Rightarrow> string option) \<Rightarrow> py_exception + state" where
  "bootstrap w environ =
     (let k = environ ''AWS_ACCESS_KEY'';
          sk = environ ''AWS_SECRET_KEY'';
          r = environ ''REGION_NAME''
      in case client_outcome w ''ec2'' k sk r of
           Some e \<Rightarrow> Inl e
         | None \<Rightarrow>
        (case client_outcome w ''route53'' k sk r of
           Some e \<Rightarrow> Inl e
         | None \<Rightarrow>
        (case client_outcome w ''iam'' k sk r of
           Some e \<Rightarrow> Inl e
         | None \<Rightarrow>
             Inr \<lparr>aws_access_key_id = k, aws_secret_access_key = sk, region_name = r,
                  ec2 = \<lparr>service = ''ec2'', key_id = k, secret = sk, region = r, ident = 0\<rparr>,
                  route53 = \<lparr>service = ''route53'', key_id = k, secret = sk, region = r, ident = 1\<rparr>,
                  iam = \<lparr>service = ''iam'', key_id = k, secret = sk, region = r, ident = 2\<rparr>,
                  os_environ = environ,
                  next_ident = 3,
                  trace = [Boto3Client ''ec2'' k sk r, Boto3Client ''route53'' k sk r,
                           Boto3Client ''iam'' k sk r]\<rparr>)))"

section \<open>The five tool functions (lines 26 to 91)\<close>

subsection \<open>\<^verbatim>\<open>aws_cli_command\<close>\<close>

text \<open>
  \<^verbatim>\<open>env = os.environ.copy()\<close> followed by the three assignments of lines 33 to 35.
\<close>

definition cli_env :: "state \<Rightarrow> child_env" where
  "cli_env s =
     ((\<lambda>name. map_option Some (os_environ s name))
        (''AWS_ACCESS_KEY_ID'' \<mapsto> aws_access_key_id s,
         ''AWS_SECRET_ACCESS_KEY'' \<mapsto> aws_secret_access_key s,
         ''AWS_DEFAULT_REGION'' \<mapsto> region_name s))"

definition aws_cli_command_body :: "world \<Rightarrow> string \<Rightarrow> state \<Rightarrow> (py_exception + string) \<times> state" where
  "aws_cli_command_body w command s =
     (and_then (run_outcome w (''aws'' # py_split command) (cli_env s))
        (\<lambda>result. if returncode result = 0 then Inr (stdout result)
                  else Inr (''Error: '' @ stderr result)),
      emit (SubprocessRun (''aws'' # py_split command) (cli_env s)) s)"

definition aws_cli_command :: "world \<Rightarrow> string \<Rightarrow> state \<Rightarrow> (py_exception + string) \<times> state" where
  "aws_cli_command w command s =
     try_except (aws_cli_command_body w command s)
       (\<lambda>e. ''Error executing AWS command: '' @ exc_text e)"

subsection \<open>\<^verbatim>\<open>list_route53_hosted_zones\<close>\<close>

definition list_route53_hosted_zones_body :: "world \<Rightarrow> state \<Rightarrow> (py_exception + string) \<times> state" where
  "list_route53_hosted_zones_body w s =
     (and_then (fst (call_api w (route53 s) ''list_hosted_zones'' [] s)) (\<lambda>response.
      and_then (getitem_key response ''HostedZones'') (\<lambda>zones.
      and_then (py_iter zones) (\<lambda>zone_items.
      and_then (comprehension (\<lambda>zone. getitem_key zone ''Name'') zone_items) (\<lambda>hosted_zones.
      Inr (''Route 53 Hosted Zones: '' @ py_str (PList hosted_zones)))))),
      snd (call_api w (route53 s) ''list_hosted_zones'' [] s))"

definition list_route53_hosted_zones :: "world \<Rightarrow> state \<Rightarrow> (py_exception + string) \<times> state" where
  "list_route53_hosted_zones w s =
     try_except (list_route53_hosted_zones_body w s)
       (\<lambda>e. ''Error listing Route 53 hosted zones: '' @ exc_text e)"

subsection \<open>\<^verbatim>\<open>get_ec2_instance_size\<close>\<close>

definition ip_filter :: "string \<Rightarrow> (string \<times> pyval) list" where
  "ip_filter instance_ip =
     [(''Filters'',
       PList [PDict [(''Name'', PStr ''private-ip-address''),
                     (''Values'', PList [PStr instance_ip])]])]"

definition get_ec2_instance_size_body :: "world \<Rightarrow> string \<Rightarrow> state \<Rightarrow> (py_exception + string) \<times> state" where
  "get_ec2_instance_size_body w instance_ip s =
     (and_then (fst (call_api w (ec2 s) ''describe_instances'' (ip_filter instance_ip) s)) (\<lambda>instances.
      and_then (getitem_key instances ''Reservations'') (\<lambda>reservations.
      if py_bool reservations then
        and_then (getitem_key instances ''Reservations'') (\<lambda>rs.
        and_then (getitem_idx rs 0) (\<lambda>reservation.
        and_then (getitem_key reservation ''Instances'') (\<lambda>insts.
        and_then (getitem_idx insts 0) (\<lambda>inst.
        and_then (getitem_key inst ''InstanceType'') (\<lambda>instance_type.
        Inr (''EC2 instance '' @ instance_ip @ '' is of type: '' @ py_str instance_type))))))
      else Inr (''No EC2 instance found with IP address: '' @ instance_ip))),
      snd (call_api w (ec2 s) ''describe_instances'' (ip_filter instance_ip) s))"

definition get_ec2_instance_size :: "world \<Rightarrow> string \<Rightarrow> state \<Rightarrow> (py_exception + string) \<times> state" where
  "get_ec2_instance_size w instance_ip s =
     try_except (get_ec2_instance_size_body w instance_ip s)
       (\<lambda>e. ''Error getting EC2 instance size: '' @ exc_text e)"

subsection \<open>\<^verbatim>\<open>get_user_permissions\<close>\<close>

definition get_user_permissions_body :: "world \<Rightarrow> string \<Rightarrow> state \<Rightarrow> (py_exception + string) \<times> state" where
  "get_user_permissions_body w user_name s =
     (and_then (fst (call_api w (iam s) ''list_attached_user_policies'' [(''UserName'', PStr user_name)] s)) (\<lambda>policies.
      and_then (getitem_key policies ''AttachedPolicies'') (\<lambda>attached.
      and_then (py_iter attached) (\<lambda>policy_items.
      and_then (comprehension (\<lambda>policy. getitem_key policy ''PolicyName'') policy_items) (\<lambda>policy_names.
      Inr (''IAM user '' @ [CHR 0x27] @ user_name @ [CHR 0x27] @ '' has these policies: ''
             @ py_str (PList policy_names)))))),
      snd (call_api w (iam s) ''list_attached_user_policies'' [(''UserName'', PStr user_name)] s))"

definition get_user_permissions :: "world \<Rightarrow> string \<Rightarrow> state \<Rightarrow> (py_exception + string) \<times> state" where
  "get_user_permissions w user_name s =
     try_except (get_user_permissions_body w user_name s)
       (\<lambda>e. ''Error getting user permissions: '' @ exc_text e)"

subsection \<open>\<^verbatim>\<open>list_s3_buckets\<close>\<close>

definition list_s3_buckets_body :: "world \<Rightarrow> state \<Rightarrow> (py_exception + string) \<times> state" where
  "list_s3_buckets_body w s =
     (case boto3_client w ''s3'' (aws_access_key_id s) (aws_secret_access_key s) (region_name s) s of
        (Inl e, s1) \<Rightarrow> (Inl e, s1)
      | (Inr s3, s1) \<Rightarrow>
          (and_then (fst (call_api w s3 ''list_buckets'' [] s1)) (\<lambda>response.
           and_then (getitem_key response ''Buckets'') (\<lambda>buckets.
           and_then (py_iter buckets) (\<lambda>bucket_items.
           and_then (comprehension (\<lambda>bucket. getitem_key bucket ''Name'') bucket_items) (\<lambda>bucket_names.
           Inr (''S3 Buckets: '' @ py_str (PList bucket_names)))))),
           snd (call_api w s3 ''list_buckets'' [] s1)))"

definition list_s3_buckets :: "world \<Rightarrow> state \<Rightarrow> (py_exception + string) \<times> state" where
  "list_s3_buckets w s =
     try_except (list_s3_buckets_body w s)
       (\<lambda>e. ''Error listing S3 buckets: '' @ exc_text e)"

section \<open>The query harness (lines 119 to 158)\<close>

text \<open>\<^verbatim>\<open>tool.invoke(args)\<close>: the invocation is recorded, then the tool's function runs.\<close>

fun invoke :: "world \<Rightarrow> tool_call \<Rightarrow> state \<Rightarrow> (py_exception + string) \<times> state" where
  "invoke w (AwsCliCommand command) s = aws_cli_command w command (emit (ToolInvoke (AwsCliCommand command)) s)"
| "invoke w ListRoute53HostedZones s = list_route53_hosted_zones w (emit (ToolInvoke ListRoute53HostedZones) s)"
| "invoke w (GetEc2InstanceSize instance_ip) s =
     get_ec2_instance_size w instance_ip (emit (ToolInvoke (GetEc2InstanceSize instance_ip)) s)"
| "invoke w (GetUserPermissions user_name) s =
     get_user_permissions w user_name (emit (ToolInvoke (GetUserPermissions user_name)) s)"
| "invoke w ListS3Buckets s = list_s3_buckets w (emit (ToolInvoke ListS3Buckets) s)"

text \<open>\<^verbatim>\<open>chain.invoke({"input": query})\<close> and the \<^verbatim>\<open>content\<close> of the reply.\<close>

definition chain_invoke :: "world \<Rightarrow> string \<Rightarrow> state \<Rightarrow> (py_exception + string) \<times> state" where
  "chain_invoke w query s = (chain_outcome w query, emit (ChainInvoke query) s)"

definition test_queries :: "string list" where
  "test_queries =
     [''List all S3 buckets in my AWS account'',
      ''List all Route 53 hosted zones'',
      ''Get the size of EC2 instance with IP 10.0.1.112'',
      ''Get permissions for IAM user take-home-coding'']"

definition banner :: string where
  "banner = replicate 50 (CHR ''='')"

text \<open>
  The announcement, the invocation and the \<^verbatim>\<open>print("Result:", aws_result)\<close> of one branch of
  the rule chain.
\<close>

definition run_tool :: "world \<Rightarrow> string \<Rightarrow> tool_call \<Rightarrow> state \<Rightarrow> (py_exception + unit) \<times> state" where
  "run_tool w announcement call s =
     (case invoke w call (emit (Print (CHR 0x0A # announcement)) s) of
        (Inl e, s1) \<Rightarrow> (Inl e, s1)
      | (Inr aws_result, s1) \<Rightarrow> (Inr (), emit (Print (''Result: '' @ aws_result)) s1))"

text \<open>The rule chain of lines 140 to 155, in the order of the source.\<close>

definition dispatch :: "world \<Rightarrow> string \<Rightarrow> state \<Rightarrow> (py_exception + unit) \<times> state" where
  "dispatch w query s =
     (if py_in ''s3'' (py_lower query) \<and> py_in ''bucket'' (py_lower query) then
        run_tool w ''Executing S3 bucket listing...'' ListS3Buckets s
      else if py_in ''route 53'' (py_lower query) \<or> py_in ''hosted zone'' (py_lower query) then
        run_tool w ''Executing Route 53 hosted zones listing...'' ListRoute53HostedZones s
      else if py_in ''ec2'' (py_lower query) \<and> py_in ''10.0.1.112'' query then
        run_tool w ''Getting EC2 instance size...'' (GetEc2InstanceSize ''10.0.1.112'') s
      else if py_in ''iam'' (py_lower query) \<and> py_in ''take-home-coding'' (py_lower query) then
        run_tool w ''Getting IAM user permissions...'' (GetUserPermissions ''take-home-coding'') s
      else (Inr (), s))"

text \<open>The body of the \<^verbatim>\<open>try\<close> of one iteration (lines 130 to 155).\<close>

definition query_body :: "world \<Rightarrow> string \<Rightarrow> state \<Rightarrow> (py_exception + unit) \<times> state" where
  "query_body w query s =
     (case chain_invoke w query
             (emit (Print banner) (emit (Print (''Query: '' @ query)) (emit (Print (CHR 0x0A # banner)) s))) of
        (Inl e, s1) \<Rightarrow> (Inl e, s1)
      | (Inr content, s1) \<Rightarrow>
          dispatch w query (emit (Print content) (emit (Print ''Agent response:'') s1)))"

text \<open>
  The \<^verbatim>\<open>print(f"Error: {e}")\<close> of the handler (line 158): it writes the line, or raises
  and writes nothing.
\<close>

definition error_print :: "world \<Rightarrow> string \<Rightarrow> state \<Rightarrow> (py_exception + unit) \<times> state" where
  "error_print w line s =
     (case error_print_outcome w line of
        Some e \<Rightarrow> (Inl e, s)
      | None \<Rightarrow> (Inr (), emit (Print line) s))"

text \<open>
  One iteration: the body under \<^verbatim>\<open>except Exception as e: print(f"Error: {e}")\<close>. An
  exception of the body that is an instance of \<^verbatim>\<open>Exception\<close> enters the handler; any other
  one leaves the iteration, and so does an exception of the handler's own print.
\<close>

definition run_query :: "world \<Rightarrow> string \<Rightarrow> state \<Rightarrow> (py_exception + unit) \<times> state" where
  "run_query w query s =
     (case query_body w query s of
        (Inl e, s1) \<Rightarrow>
          (if isinstance_Exception e then error_print w (''Error: '' @ exc_text e) s1
           else (Inl e, s1))
      | (Inr u, s1) \<Rightarrow> (Inr (), s1))"

text \<open>
  The \<^verbatim>\<open>for\<close> loop: an exception that leaves an iteration ends the loop and leaves the
  function.
\<close>

fun for_each :: "('a \<Rightarrow> state \<Rightarrow> (py_exception + unit) \<times> state) \<Rightarrow> 'a list \<Rightarrow> state \<Rightarrow> (py_exception + unit) \<times> state" where
  "for_each f [] s = (Inr (), s)"
| "for_each f (x # xs) s =
     (case f x s of
        (Inl e, s1) \<Rightarrow> (Inl e, s1)
      | (Inr u, s1) \<Rightarrow> for_each f xs s1)"

definition test_aws_agent :: "world \<Rightarrow> state \<Rightarrow> (py_exception + unit) \<times> state" where
  "test_aws_agent w s = for_each (run_query w) test_queries s"

section \<open>Reading a trace\<close>

text \<open>The events a run added to the trace: those of \<open>s1\<close> after the ones \<open>s\<close> already had.\<close>

definition new_events :: "state \<Rightarrow> state \<Rightarrow> event list" where
  "new_events s s1 = drop (length (trace s)) (trace s1)"

fun is_tool_invoke :: "event \<Rightarrow> bool" where
  "is_tool_invoke (ToolInvoke c) = True"
| "is_tool_invoke ev = False"

fun is_print :: "event \<Rightarrow> bool" where
  "is_print (Print line) = True"
| "is_print ev = False"

fun is_construction :: "event \<Rightarrow> bool" where
  "is_construction (Boto3Client svc k sk r) = True"
| "is_construction ev = False"

section \<open>Notions used by the properties\<close>

text \<open>
  A result is an error report for the exception \<open>e\<close> under \<open>prefix\<close>: the tool returned a
  string, the string starts with the prefix and the text of the exception occurs in it.
\<close>

definition error_report :: "string \<Rightarrow> py_exception \<Rightarrow> py_exception + string \<Rightarrow> bool" where
  "error_report prefix e r =
     (case r of Inl x \<Rightarrow> False | Inr text \<Rightarrow> startswith prefix text \<and> py_in (exc_text e) text)"

text \<open>
  What \<^verbatim>\<open>list_s3_buckets\<close> asks of \<^verbatim>\<open>boto3.client\<close> in the state \<open>s\<close>, whether the world
  grants it, and the handle it then gets.
\<close>

definition s3_construction :: "state \<Rightarrow> event" where
  "s3_construction s = Boto3Client ''s3'' (aws_access_key_id s) (aws_secret_access_key s) (region_name s)"

definition s3_constructed :: "world \<Rightarrow> state \<Rightarrow> bool" where
  "s3_constructed w s =
     (client_outcome w ''s3'' (aws_access_key_id s) (aws_secret_access_key s) (region_name s) = None)"

definition s3_handle :: "state \<Rightarrow> client" where
  "s3_handle s =
     \<lparr>service = ''s3'', key_id = aws_access_key_id s, secret = aws_secret_access_key s,
      region = region_name s, ident = next_ident s\<rparr>"

section \<open>Sample worlds and states\<close>

definition sample_environ :: "string \<Rightarrow> string option" where
  "sample_environ =
     [''AWS_ACCESS_KEY'' \<mapsto> ''AKIAEXAMPLE'', ''AWS_SECRET_KEY'' \<mapsto> ''s3cr3t'',
      ''REGION_NAME'' \<mapsto> ''us-east-1'', ''HOME'' \<mapsto> ''/root'']"

definition sample_state :: state where
  "sample_state =
     \<lparr>aws_access_key_id = Some ''AKIAEXAMPLE'', aws_secret_access_key = Some ''s3cr3t'',
      region_name = Some ''us-east-1'',
      ec2 = \<lparr>service = ''ec2'', key_id = Some ''AKIAEXAMPLE'', secret = Some ''s3cr3t'',
             region = Some ''us-east-1'', ident = 0\<rparr>,
      route53 = \<lparr>service = ''route53'', key_id = Some ''AKIAEXAMPLE'', secret = Some ''s3cr3t'',
                 region = Some ''us-east-1'', ident = 1\<rparr>,
      iam = \<lparr>service = ''iam'', key_id = Some ''AKIAEXAMPLE'', secret = Some ''s3cr3t'',
             region = Some ''us-east-1'', ident = 2\<rparr>,
      os_environ = sample_environ,
      next_ident = 3,
      trace = [Boto3Client ''ec2'' (Some ''AKIAEXAMPLE'') (Some ''s3cr3t'') (Some ''us-east-1''),
               Boto3Client ''route53'' (Some ''AKIAEXAMPLE'') (Some ''s3cr3t'') (Some ''us-east-1''),
               Boto3Client ''iam'' (Some ''AKIAEXAMPLE'') (Some ''s3cr3t'') (Some ''us-east-1'')]\<rparr>"

text \<open>The answer of a provider that serves one of everything.\<close>

definition sample_response :: "string \<Rightarrow> pyval" where
  "sample_response method =
     (if method = ''list_hosted_zones'' then
        PDict [(''HostedZones'', PList [PDict [(''Id'', PStr ''/hostedzone/Z1''), (''Name'', PStr ''example.com.'')],
                                        PDict [(''Id'', PStr ''/hostedzone/Z2''), (''Name'', PStr ''example.org.'')]]),
               (''IsTruncated'', PBool False)]
      else if method = ''describe_instances'' then
        PDict [(''Reservations'',
                PList [PDict [(''Instances'', PList [PDict [(''InstanceId'', PStr ''i-0abc''),
                                                            (''InstanceType'', PStr ''t2.micro'')]])]])]
      else if method = ''list_attached_user_policies'' then
        PDict [(''AttachedPolicies'',
                PList [PDict [(''PolicyName'', PStr ''ReadOnlyAccess''),
                              (''PolicyArn'', PStr ''arn:aws:iam::aws:policy/ReadOnlyAccess'')]])]
      else if method = ''list_buckets'' then
        PDict [(''Buckets'', PList [PDict [(''Name'', PStr ''logs'')], PDict [(''Name'', PStr ''assets'')]])]
      else PDict [])"

definition sample_world :: world where
  "sample_world =
     \<lparr>client_outcome = (\<lambda>svc k sk r. None),
      api_outcome = (\<lambda>c method kwargs. Inr (sample_response method)),
      run_outcome = (\<lambda>argv env. Inr \<lparr>returncode = 0, stdout = ''us-east-1'', stderr = []\<rparr>),
      chain_outcome = (\<lambda>query. Inr ''I can help with that.''),
      error_print_outcome = (\<lambda>line. None)\<rparr>"

definition denied :: py_exception where
  "denied = PyException ''ClientError'' ''An error occurred (AccessDenied)''"

text \<open>A world in which every call to the provider and to the model raises.\<close>

definition failing_world :: world where
  "failing_world =
     \<lparr>client_outcome = (\<lambda>svc k sk r. Some denied),
      api_outcome = (\<lambda>c method kwargs. Inl denied),
      run_outcome = (\<lambda>argv env. Inl denied),
      chain_outcome = (\<lambda>query. Inl denied),
      error_print_outcome = (\<lambda>line. None)\<rparr>"

text \<open>A world in which handles can be built and every call on them raises.\<close>

definition refusing_world :: world where
  "refusing_world = failing_world\<lparr>client_outcome := (\<lambda>svc k sk r. None)\<rparr>"

text \<open>A world whose CLI exits with code 254.\<close>

definition cli_error_world :: world where
  "cli_error_world =
     sample_world\<lparr>run_outcome := (\<lambda>argv env. Inr \<lparr>returncode = 254, stdout = [], stderr = ''Unable to locate credentials''\<rparr>)\<rparr>"

text \<open>A world whose compute service finds no instance.\<close>

definition no_instance_world :: world where
  "no_instance_world =
     sample_world\<lparr>api_outcome := (\<lambda>c method kwargs. Inr (PDict [(''Reservations'', PList [])]))\<rparr>"

text \<open>A world whose compute service answers with a reservation that holds no instance.\<close>

definition empty_reservation_world :: world where
  "empty_reservation_world =
     sample_world\<lparr>api_outcome := (\<lambda>c method kwargs.
        Inr (PDict [(''Reservations'', PList [PDict [(''Instances'', PList [])]])]))\<rparr>"

section \<open>Further notions used by the properties\<close>

fun is_chain_invoke :: "event \<Rightarrow> bool" where
  "is_chain_invoke (ChainInvoke query) = True"
| "is_chain_invoke ev = False"

text \<open>A call that reaches the provider: a handle construction, an API method or a child process.\<close>

fun is_provider_call :: "event \<Rightarrow> bool" where
  "is_provider_call (Boto3Client svc k sk r) = True"
| "is_provider_call (ApiCall c method kwargs) = True"
| "is_provider_call (SubprocessRun argv env) = True"
| "is_provider_call ev = False"

text \<open>
  The rule table of the harness read as a function of the query text alone: the first rule
  whose test holds names the tool and its literal argument; \<open>None\<close> when no rule matches.
\<close>

definition rule_table :: "string \<Rightarrow> tool_call option" where
  "rule_table query =
     (if py_in ''s3'' (py_lower query) \<and> py_in ''bucket'' (py_lower query) then Some ListS3Buckets
      else if py_in ''route 53'' (py_lower query) \<or> py_in ''hosted zone'' (py_lower query)
        then Some ListRoute53HostedZones
      else if py_in ''ec2'' (py_lower query) \<and> py_in ''10.0.1.112'' query
        then Some (GetEc2InstanceSize ''10.0.1.112'')
      else if py_in ''iam'' (py_lower query) \<and> py_in ''take-home-coding'' (py_lower query)
        then Some (GetUserPermissions ''take-home-coding'')
      else None)"

text \<open>The tool invocations among the events a run added.\<close>

definition invocations :: "state \<Rightarrow> state \<Rightarrow> event list" where
  "invocations s s1 = filter is_tool_invoke (new_events s s1)"

text \<open>The fixed lines that open every iteration, and the call of the chain.\<close>

definition preamble :: "string \<Rightarrow> event list" where
  "preamble query =
     [Print (CHR 0x0A # banner), Print (''Query: '' @ query), Print banner, ChainInvoke query]"

text \<open>
  The three module-level handles are objects that exist: their identities are below the next
  free one.
\<close>

definition handles_allocated :: "state \<Rightarrow> bool" where
  "handles_allocated s =
     (ident (ec2 s) < next_ident s \<and> ident (route53 s) < next_ident s \<and> ident (iam s) < next_ident s)"

text \<open>The item \<open>v\<close> of a response carries the string \<open>n\<close> under \<open>key\<close>.\<close>

definition named :: "string \<Rightarrow> string \<Rightarrow> pyval \<Rightarrow> bool" where
  "named key n v = (getitem_key v key = Inr (PStr n))"

text \<open>
  A name that \<^verbatim>\<open>repr\<close> shows unchanged between single quotes: printable characters only,
  with no backslash and no single quote.
\<close>

definition plain_name :: "string \<Rightarrow> bool" where
  "plain_name n = list_all (\<lambda>c. isprintable c \<and> c \<noteq> CHR 0x5C \<and> c \<noteq> CHR 0x27) n"

text \<open>How an f-string shows a list of strings: \<^verbatim>\<open>[repr(n1), repr(n2), ...]\<close>.\<close>

definition list_display :: "string list \<Rightarrow> string" where
  "list_display names = ''['' @ py_join '', '' (map repr_str names) @ '']''"

text \<open>What is left of \<open>hay\<close> after the first occurrence of \<open>needle\<close>.\<close>

fun after_first :: "string \<Rightarrow> string \<Rightarrow> string option" where
  "after_first needle [] = (if needle = [] then Some [] else None)"
| "after_first needle (c # cs) =
     (if startswith needle (c # cs) then Some (drop (length needle) (c # cs))
      else after_first needle cs)"

text \<open>The names occur in \<open>hay\<close> one after the other, in the order of the list.\<close>

fun in_order :: "string list \<Rightarrow> string \<Rightarrow> bool" where
  "in_order [] hay = True"
| "in_order (n # ns) hay =
     (case after_first n hay of None \<Rightarrow> False | Some rest \<Rightarrow> in_order ns rest)"

text \<open>A result raises, if at all, an instance of \<^verbatim>\<open>Exception\<close>.\<close>

definition raises_only_exceptions :: "py_exception + 'a \<Rightarrow> bool" where
  "raises_only_exceptions r = (case r of Inl e \<Rightarrow> isinstance_Exception e | Inr v \<Rightarrow> True)"

text \<open>
  Every exception the provider, the child process and the model raise in this world is an
  instance of \<^verbatim>\<open>Exception\<close>.
\<close>

definition only_exceptions :: "world \<Rightarrow> bool" where
  "only_exceptions w =
     ((\<forall>svc k sk r. case client_outcome w svc k sk r of
                       Some e \<Rightarrow> isinstance_Exception e | None \<Rightarrow> True)
      \<and> (\<forall>c method kwargs. raises_only_exceptions (api_outcome w c method kwargs))
      \<and> (\<forall>argv env. raises_only_exceptions (run_outcome w argv env))
      \<and> (\<forall>query. raises_only_exceptions (chain_outcome w query)))"

text \<open>The print of the handler returns, whatever the line.\<close>

definition error_prints_return :: "world \<Rightarrow> bool" where
  "error_prints_return w = (\<forall>line. error_print_outcome w line = None)"

section \<open>Further sample worlds\<close>

definition interrupt :: py_exception where
  "interrupt = PyException ''KeyboardInterrupt'' []"

text \<open>A world in which the user interrupts every call to the provider and to the model.\<close>

definition interrupted_world :: world where
  "interrupted_world =
     \<lparr>client_outcome = (\<lambda>svc k sk r. Some interrupt),
      api_outcome = (\<lambda>c method kwargs. Inl interrupt),
      run_outcome = (\<lambda>argv env. Inl interrupt),
      chain_outcome = (\<lambda>query. Inl interrupt),
      error_print_outcome = (\<lambda>line. None)\<rparr>"

text \<open>A world in which handles can be built and every call on them is interrupted.\<close>

definition interrupted_api_world :: world where
  "interrupted_api_world = interrupted_world\<lparr>client_outcome := (\<lambda>svc k sk r. None)\<rparr>"

text \<open>A world in which the model call fails and the standard output is a broken pipe.\<close>

definition broken_pipe :: py_exception where
  "broken_pipe = PyException ''BrokenPipeError'' ''[Errno 32] Broken pipe''"

definition broken_pipe_world :: world where
  "broken_pipe_world = failing_world\<lparr>error_print_outcome := (\<lambda>line. Some broken_pipe)\<rparr>"

text \<open>
  A world whose DNS service holds the zone \<^verbatim>\<open>ex@mple.com\<close>, whose name the service returns
  with the escape code \<^verbatim>\<open>\100\<close>.
\<close>

definition escaped_zone_name :: string where
  "escaped_zone_name = ''ex'' @ [CHR 0x5C] @ ''100mple.com.''"

definition escaped_zone_world :: world where
  "escaped_zone_world =
     sample_world\<lparr>api_outcome := (\<lambda>c method kwargs.
        Inr (PDict [(''HostedZones'', PList [PDict [(''Name'', PStr escaped_zone_name)]])]))\<rparr>"

text \<open>A world whose CLI succeeds and writes a text that begins with \<^verbatim>\<open>Error\<close>.\<close>

definition error_stdout_world :: world where
  "error_stdout_world =
     sample_world\<lparr>run_outcome := (\<lambda>argv env.
        Inr \<lparr>returncode = 0, stdout = ''Error budget: 5%'', stderr = []\<rparr>)\<rparr>"

section \<open>Basic facts\<close>

lemma and_then_Inl [simp]: "and_then (Inl e) f = Inl e"
  by (simp add: and_then_def)

lemma and_then_Inr [simp]: "and_then (Inr v) f = f v"
  by (simp add: and_then_def)

lemma builtin_exceptions [simp]:
  "isinstance_Exception (PyException ''KeyError'' msg)"
  "isinstance_Exception (PyException ''IndexError'' msg)"
  "isinstance_Exception (PyException ''TypeError'' msg)"
  by (simp_all add: isinstance_Exception_def base_only_classes_def)

lemma raises_only_exceptions_simps [simp]:
  "raises_only_exceptions (Inr v)"
  "raises_only_exceptions (Inl e) = isinstance_Exception e"
  by (simp_all add: raises_only_exceptions_def)

lemma and_then_raises:
  "raises_only_exceptions m \<Longrightarrow> (\<And>v. raises_only_exceptions (f v)) \<Longrightarrow> raises_only_exceptions (and_then m f)"
  by (cases m) simp_all

lemma getitem_key_raises: "raises_only_exceptions (getitem_key v k)"
  by (cases v) (simp_all add: type_error_def not_subscriptable_def split: option.splits)

lemma getitem_idx_raises: "raises_only_exceptions (getitem_idx v i)"
  by (cases v) (simp_all add: type_error_def not_subscriptable_def)

lemma py_iter_raises: "raises_only_exceptions (py_iter v)"
  by (cases v) (simp_all add: type_error_def not_iterable_def)

lemma comprehension_raises:
  "(\<And>x. raises_only_exceptions (f x)) \<Longrightarrow> raises_only_exceptions (comprehension f xs)"
  by (induction xs) (simp_all add: and_then_raises)

lemma fst_try_except:
  "fst (try_except body h)
     = (case fst body of
          Inl e \<Rightarrow> (if isinstance_Exception e then Inr (h e) else Inl e)
        | Inr v \<Rightarrow> Inr v)"
  by (simp add: try_except_def split: sum.splits)

lemma snd_try_except [simp]: "snd (try_except body h) = snd body"
  by (simp add: try_except_def split: sum.splits)

lemma try_except_returns: "raises_only_exceptions (fst body) \<Longrightarrow> \<not> isl (fst (try_except body h))"
  by (cases "fst body") (simp_all add: fst_try_except)

lemma try_except_escapes:
  "fst (try_except body h) = Inl e \<Longrightarrow> fst body = Inl e \<and> \<not> isinstance_Exception e"
  by (cases "fst body") (simp_all add: fst_try_except split: if_splits)

lemma try_except_passes:
  "fst body = Inl e \<Longrightarrow> \<not> isinstance_Exception e \<Longrightarrow> fst (try_except body h) = Inl e"
  by (simp add: fst_try_except)

lemma startswith_append [simp]: "startswith p (p @ s)"
  by (induction p) auto

lemma startswith_py_in: "startswith x s \<Longrightarrow> py_in x s"
  by (cases s) (auto elim: startswith.elims)

lemma py_in_append: "py_in x (p @ x @ t)"
proof (induction p)
  case Nil
  show ?case by (simp add: startswith_py_in)
next
  case (Cons a p)
  then show ?case by simp
qed

lemma py_in_suffix: "py_in x (p @ x)"
  using py_in_append [of x p "[]"] by simp

lemma error_report_caught:
  "fst body = Inl e \<Longrightarrow> isinstance_Exception e \<Longrightarrow>
     error_report prefix e (fst (try_except body (\<lambda>x. (prefix @ '' '') @ exc_text x)))"
  using py_in_suffix [of "exc_text e" "prefix @ '' ''"]
  by (simp add: error_report_def fst_try_except del: append_assoc) (simp add: startswith_append)

subsection \<open>The trace of each tool\<close>

lemma trace_emit [simp]: "trace (emit ev s) = trace s @ [ev]"
  by (simp add: emit_def)

lemma emit_fields [simp]:
  "ec2 (emit ev s) = ec2 s" "route53 (emit ev s) = route53 s" "iam (emit ev s) = iam s"
  "aws_access_key_id (emit ev s) = aws_access_key_id s"
  "aws_secret_access_key (emit ev s) = aws_secret_access_key s"
  "region_name (emit ev s) = region_name s"
  "os_environ (emit ev s) = os_environ s"
  "next_ident (emit ev s) = next_ident s"
  by (simp_all add: emit_def)

lemma new_events_append: "trace s1 = trace s @ evs \<Longrightarrow> new_events s s1 = evs"
  by (simp add: new_events_def)

lemma cli_env_emit [simp]: "cli_env (emit ev s) = cli_env s"
  by (simp add: cli_env_def)

lemma trace_aws_cli_command:
  "trace (snd (aws_cli_command w command s))
     = trace s @ [SubprocessRun (''aws'' # py_split command) (cli_env s)]"
  by (simp add: aws_cli_command_def aws_cli_command_body_def)

lemma trace_list_route53_hosted_zones:
  "trace (snd (list_route53_hosted_zones w s)) = trace s @ [ApiCall (route53 s) ''list_hosted_zones'' []]"
  by (simp add: list_route53_hosted_zones_def list_route53_hosted_zones_body_def call_api_def)

lemma trace_get_ec2_instance_size:
  "trace (snd (get_ec2_instance_size w ip s))
     = trace s @ [ApiCall (ec2 s) ''describe_instances'' (ip_filter ip)]"
  by (simp add: get_ec2_instance_size_def get_ec2_instance_size_body_def call_api_def)

lemma trace_get_user_permissions:
  "trace (snd (get_user_permissions w user s))
     = trace s @ [ApiCall (iam s) ''list_attached_user_policies'' [(''UserName'', PStr user)]]"
  by (simp add: get_user_permissions_def get_user_permissions_body_def call_api_def)

lemma trace_list_s3_buckets:
  "trace (snd (list_s3_buckets w s))
     = trace s @ s3_construction s
         # (if s3_constructed w s then [ApiCall (s3_handle s) ''list_buckets'' []] else [])"
  by (simp add: list_s3_buckets_def list_s3_buckets_body_def boto3_client_def call_api_def
      s3_handle_def s3_construction_def s3_constructed_def split: option.splits)

subsection \<open>What the bodies of the tools raise\<close>

lemma aws_cli_command_body_raises:
  "raises_only_exceptions (run_outcome w (''aws'' # py_split command) (cli_env s))
     \<Longrightarrow> raises_only_exceptions (fst (aws_cli_command_body w command s))"
  by (simp add: aws_cli_command_body_def and_then_raises)

lemma list_route53_hosted_zones_body_raises:
  "raises_only_exceptions (api_outcome w (route53 s) ''list_hosted_zones'' [])
     \<Longrightarrow> raises_only_exceptions (fst (list_route53_hosted_zones_body w s))"
  by (simp add: list_route53_hosted_zones_body_def call_api_def)
    (intro and_then_raises getitem_key_raises py_iter_raises comprehension_raises; simp)

lemma get_ec2_instance_size_body_raises:
  "raises_only_exceptions (api_outcome w (ec2 s) ''describe_instances'' (ip_filter instance_ip))
     \<Longrightarrow> raises_only_exceptions (fst (get_ec2_instance_size_body w instance_ip s))"
  by (simp add: get_ec2_instance_size_body_def call_api_def)
    (intro and_then_raises getitem_key_raises getitem_idx_raises; simp add: and_then_raises
      getitem_key_raises getitem_idx_raises)

lemma get_user_permissions_body_raises:
  "raises_only_exceptions (api_outcome w (iam s) ''list_attached_user_policies'' [(''UserName'', PStr user_name)])
     \<Longrightarrow> raises_only_exceptions (fst (get_user_permissions_body w user_name s))"
  by (simp add: get_user_permissions_body_def call_api_def)
    (intro and_then_raises getitem_key_raises py_iter_raises comprehension_raises; simp)

lemma list_s3_buckets_body_raises:
  "(case client_outcome w ''s3'' (aws_access_key_id s) (aws_secret_access_key s) (region_name s) of
      Some e \<Rightarrow> isinstance_Exception e | None \<Rightarrow> True)
     \<Longrightarrow> raises_only_exceptions (api_outcome w (s3_handle s) ''list_buckets'' [])
     \<Longrightarrow> raises_only_exceptions (fst (list_s3_buckets_body w s))"
  by (cases "client_outcome w ''s3'' (aws_access_key_id s) (aws_secret_access_key s) (region_name s)")
    (simp_all add: list_s3_buckets_body_def boto3_client_def call_api_def s3_handle_def
      and_then_raises getitem_key_raises py_iter_raises comprehension_raises)

subsection \<open>Splitting on whitespace\<close>

lemma split_scan_tokens:
  "\<forall>c\<in>set cur. \<not> isspace c \<Longrightarrow> t \<in> set (split_scan cur s)
     \<Longrightarrow> t \<noteq> [] \<and> (\<forall>c\<in>set t. \<not> isspace c)"
proof (induction s arbitrary: cur)
  case Nil
  then show ?case by (auto split: if_splits)
next
  case (Cons c cs)
  show ?case
  proof (cases "isspace c")
    case True
    with Cons.prems have "t = cur \<and> cur \<noteq> [] \<or> t \<in> set (split_scan [] cs)"
      by (auto split: if_splits)
    then show ?thesis
      using Cons.IH [of "[]"] Cons.prems(1) by auto
  next
    case False
    with Cons.prems have "t \<in> set (split_scan (cur @ [c]) cs)" by simp
    moreover have "\<forall>x\<in>set (cur @ [c]). \<not> isspace x" using Cons.prems(1) False by simp
    ultimately show ?thesis using Cons.IH by blast
  qed
qed

lemma split_scan_concat: "concat (split_scan cur s) = cur @ filter (\<lambda>c. \<not> isspace c) s"
  by (induction s arbitrary: cur) auto

lemma split_scan_spaces:
  "\<forall>c\<in>set gap. isspace c \<Longrightarrow> split_scan [] (gap @ b) = split_scan [] b"
  by (induction gap) auto

lemma split_scan_gap:
  "gap \<noteq> [] \<Longrightarrow> \<forall>c\<in>set gap. isspace c \<Longrightarrow>
     split_scan cur (a @ gap @ b) = split_scan cur (a @ gap) @ split_scan [] b"
proof (induction a arbitrary: cur)
  case Nil
  then obtain c cs where g: "gap = c # cs" by (cases gap) auto
  with Nil have "isspace c" "\<forall>x\<in>set cs. isspace x" by auto
  then show ?case
    using split_scan_spaces [of cs b] split_scan_spaces [of cs "[]"] by (simp add: g)
next
  case (Cons x xs)
  then show ?case by simp
qed

lemma split_scan_trailing:
  "\<forall>c\<in>set gap. isspace c \<Longrightarrow> split_scan cur (a @ gap) = split_scan cur a"
proof (induction a arbitrary: cur)
  case Nil
  then show ?case
  proof (cases gap)
    case Nil
    then show ?thesis by simp
  next
    case (Cons c cs)
    with Nil.prems have "isspace c" "\<forall>x\<in>set cs. isspace x" by auto
    then show ?thesis using split_scan_spaces [of cs "[]"] by (simp add: Cons)
  qed
next
  case (Cons x xs)
  then show ?case by simp
qed

lemma split_scan_word:
  "\<forall>c\<in>set word. \<not> isspace c \<Longrightarrow> cur @ word \<noteq> [] \<Longrightarrow> split_scan cur word = [cur @ word]"
  by (induction word arbitrary: cur) auto

subsection \<open>Substrings\<close>

lemma startswith_iff: "startswith p s \<longleftrightarrow> (\<exists>t. s = p @ t)"
  by (induction p s rule: startswith.induct) auto

lemma py_in_iff: "py_in needle hay \<longleftrightarrow> (\<exists>p t. hay = p @ needle @ t)"
proof
  assume "py_in needle hay"
  then show "\<exists>p t. hay = p @ needle @ t"
  proof (induction hay)
    case Nil
    then show ?case by simp
  next
    case (Cons c cs)
    show ?case
    proof (cases "startswith needle (c # cs)")
      case True
      then obtain t where "c # cs = needle @ t" by (auto simp: startswith_iff)
      then have "c # cs = [] @ needle @ t" by simp
      then show ?thesis by blast
    next
      case False
      with Cons.prems have "py_in needle cs" by simp
      then obtain p t where "cs = p @ needle @ t" using Cons.IH by blast
      then have "c # cs = (c # p) @ needle @ t" by simp
      then show ?thesis by blast
    qed
  qed
next
  assume "\<exists>p t. hay = p @ needle @ t"
  then show "py_in needle hay" by (auto simp: py_in_append)
qed

lemma py_in_left: "py_in (a @ b) hay \<Longrightarrow> py_in a hay"
proof -
  assume "py_in (a @ b) hay"
  then obtain p t where "hay = p @ (a @ b) @ t" by (auto simp: py_in_iff)
  then have "hay = p @ a @ (b @ t)" by simp
  then show ?thesis unfolding py_in_iff by blast
qed

lemma py_in_right: "py_in (a @ b) hay \<Longrightarrow> py_in b hay"
proof -
  assume "py_in (a @ b) hay"
  then obtain p t where "hay = p @ (a @ b) @ t" by (auto simp: py_in_iff)
  then have "hay = (p @ a) @ b @ t" by simp
  then show ?thesis unfolding py_in_iff by blast
qed

lemma py_in_lower: "py_in needle hay \<Longrightarrow> py_in (py_lower needle) (py_lower hay)"
proof -
  assume "py_in needle hay"
  then obtain p t where "hay = p @ needle @ t" by (auto simp: py_in_iff)
  then have "py_lower hay = py_lower p @ py_lower needle @ py_lower t"
    by (simp add: py_lower_def)
  then show ?thesis unfolding py_in_iff by blast
qed

section \<open>Error handling of the tools\<close>

text \<open>
  Claim C1, as the script has it. Each of the five tool functions, \<^verbatim>\<open>aws_cli_command\<close>,
  \<^verbatim>\<open>list_route53_hosted_zones\<close>, \<^verbatim>\<open>get_ec2_instance_size\<close>, \<^verbatim>\<open>get_user_permissions\<close> and
  \<^verbatim>\<open>list_s3_buckets\<close>, returns a string whenever its provider call (the child process, the
  API method, and for the bucket listing also the handle construction) returns or raises an
  instance of \<^verbatim>\<open>Exception\<close>. When the provider call raises such an \<open>e\<close>, the string starts
  with that tool's prefix, \<^verbatim>\<open>Error executing AWS command:\<close>,
  \<^verbatim>\<open>Error listing Route 53 hosted zones:\<close>, \<^verbatim>\<open>Error getting EC2 instance size:\<close>,
  \<^verbatim>\<open>Error getting user permissions:\<close> or \<^verbatim>\<open>Error listing S3 buckets:\<close>, and contains
  \<^verbatim>\<open>str(e)\<close>. An exception of the provider call that is not an instance of
  \<^verbatim>\<open>Exception\<close> passes through \<^verbatim>\<open>except Exception\<close> and leaves the tool.
\<close>

theorem tools_absorb_errors:
  "(raises_only_exceptions (run_outcome w (''aws'' # py_split command) (cli_env s)) \<longrightarrow>
      \<not> isl (fst (aws_cli_command w command s)))
   \<and> (raises_only_exceptions (api_outcome w (route53 s) ''list_hosted_zones'' []) \<longrightarrow>
      \<not> isl (fst (list_route53_hosted_zones w s)))
   \<and> (raises_only_exceptions (api_outcome w (ec2 s) ''describe_instances'' (ip_filter instance_ip)) \<longrightarrow>
      \<not> isl (fst (get_ec2_instance_size w instance_ip s)))
   \<and> (raises_only_exceptions
        (api_outcome w (iam s) ''list_attached_user_policies'' [(''UserName'', PStr user_name)]) \<longrightarrow>
      \<not> isl (fst (get_user_permissions w user_name s)))
   \<and> ((case client_outcome w ''s3'' (aws_access_key_id s) (aws_secret_access_key s) (region_name s) of
          Some x \<Rightarrow> isinstance_Exception x | None \<Rightarrow> True)
      \<and> raises_only_exceptions (api_outcome w (s3_handle s) ''list_buckets'' []) \<longrightarrow>
      \<not> isl (fst (list_s3_buckets w s)))
   \<and> (run_outcome w (''aws'' # py_split command) (cli_env s) = Inl e \<longrightarrow>
        (if isinstance_Exception e
         then error_report ''Error executing AWS command:'' e (fst (aws_cli_command w command s))
         else fst (aws_cli_command w command s) = Inl e))
   \<and> (api_outcome w (route53 s) ''list_hosted_zones'' [] = Inl e \<longrightarrow>
        (if isinstance_Exception e
         then error_report ''Error listing Route 53 hosted zones:'' e (fst (list_route53_hosted_zones w s))
         else fst (list_route53_hosted_zones w s) = Inl e))
   \<and> (api_outcome w (ec2 s) ''describe_instances'' (ip_filter instance_ip) = Inl e \<longrightarrow>
        (if isinstance_Exception e
         then error_report ''Error getting EC2 instance size:'' e (fst (get_ec2_instance_size w instance_ip s))
         else fst (get_ec2_instance_size w instance_ip s) = Inl e))
   \<and> (api_outcome w (iam s) ''list_attached_user_policies'' [(''UserName'', PStr user_name)] = Inl e \<longrightarrow>
        (if isinstance_Exception e
         then error_report ''Error getting user permissions:'' e (fst (get_user_permissions w user_name s))
         else fst (get_user_permissions w user_name s) = Inl e))
   \<and> (client_outcome w ''s3'' (aws_access_key_id s) (aws_secret_access_key s) (region_name s) = Some e \<longrightarrow>
        (if isinstance_Exception e
         then error_report ''Error listing S3 buckets:'' e (fst (list_s3_buckets w s))
         else fst (list_s3_buckets w s) = Inl e))
   \<and> (s3_constructed w s \<and> api_outcome w (s3_handle s) ''list_buckets'' [] = Inl e \<longrightarrow>
        (if isinstance_Exception e
         then error_report ''Error listing S3 buckets:'' e (fst (list_s3_buckets w s))
         else fst (list_s3_buckets w s) = Inl e))"
proof -
  have r1: "raises_only_exceptions (run_outcome w (''aws'' # py_split command) (cli_env s)) \<longrightarrow>
      \<not> isl (fst (aws_cli_command w command s))"
    by (simp add: aws_cli_command_def try_except_returns aws_cli_command_body_raises)
  have r2: "raises_only_exceptions (api_outcome w (route53 s) ''list_hosted_zones'' []) \<longrightarrow>
      \<not> isl (fst (list_route53_hosted_zones w s))"
    by (simp add: list_route53_hosted_zones_def try_except_returns list_route53_hosted_zones_body_raises)
  have r3: "raises_only_exceptions (api_outcome w (ec2 s) ''describe_instances'' (ip_filter instance_ip)) \<longrightarrow>
      \<not> isl (fst (get_ec2_instance_size w instance_ip s))"
    by (simp add: get_ec2_instance_size_def try_except_returns get_ec2_instance_size_body_raises)
  have r4: "raises_only_exceptions
        (api_outcome w (iam s) ''list_attached_user_policies'' [(''UserName'', PStr user_name)]) \<longrightarrow>
      \<not> isl (fst (get_user_permissions w user_name s))"
    by (simp add: get_user_permissions_def try_except_returns get_user_permissions_body_raises)
  have r5: "(case client_outcome w ''s3'' (aws_access_key_id s) (aws_secret_access_key s) (region_name s) of
          Some x \<Rightarrow> isinstance_Exception x | None \<Rightarrow> True)
      \<and> raises_only_exceptions (api_outcome w (s3_handle s) ''list_buckets'' []) \<longrightarrow>
      \<not> isl (fst (list_s3_buckets w s))"
    by (simp add: list_s3_buckets_def try_except_returns list_s3_buckets_body_raises)
  have b1: "run_outcome w (''aws'' # py_split command) (cli_env s) = Inl e \<Longrightarrow>
      fst (aws_cli_command_body w command s) = Inl e"
    by (simp add: aws_cli_command_body_def)
  have b2: "api_outcome w (route53 s) ''list_hosted_zones'' [] = Inl e \<Longrightarrow>
      fst (list_route53_hosted_zones_body w s) = Inl e"
    by (simp add: list_route53_hosted_zones_body_def call_api_def)
  have b3: "api_outcome w (ec2 s) ''describe_instances'' (ip_filter instance_ip) = Inl e \<Longrightarrow>
      fst (get_ec2_instance_size_body w instance_ip s) = Inl e"
    by (simp add: get_ec2_instance_size_body_def call_api_def)
  have b4: "api_outcome w (iam s) ''list_attached_user_policies'' [(''UserName'', PStr user_name)] = Inl e \<Longrightarrow>
      fst (get_user_permissions_body w user_name s) = Inl e"
    by (simp add: get_user_permissions_body_def call_api_def)
  have b5: "client_outcome w ''s3'' (aws_access_key_id s) (aws_secret_access_key s) (region_name s) = Some e \<Longrightarrow>
      fst (list_s3_buckets_body w s) = Inl e"
    by (simp add: list_s3_buckets_body_def boto3_client_def)
  have b6: "s3_constructed w s \<and> api_outcome w (s3_handle s) ''list_buckets'' [] = Inl e \<Longrightarrow>
      fst (list_s3_buckets_body w s) = Inl e"
    by (simp add: list_s3_buckets_body_def boto3_client_def call_api_def s3_constructed_def s3_handle_def)
  have e1: "run_outcome w (''aws'' # py_split command) (cli_env s) = Inl e \<longrightarrow>
        (if isinstance_Exception e
         then error_report ''Error executing AWS command:'' e (fst (aws_cli_command w command s))
         else fst (aws_cli_command w command s) = Inl e)"
    unfolding aws_cli_command_def
    using error_report_caught [of "aws_cli_command_body w command s" e "''Error executing AWS command:''"]
      try_except_passes [of "aws_cli_command_body w command s" e] b1
    by simp
  have e2: "api_outcome w (route53 s) ''list_hosted_zones'' [] = Inl e \<longrightarrow>
        (if isinstance_Exception e
         then error_report ''Error listing Route 53 hosted zones:'' e (fst (list_route53_hosted_zones w s))
         else fst (list_route53_hosted_zones w s) = Inl e)"
    unfolding list_route53_hosted_zones_def
    using error_report_caught [of "list_route53_hosted_zones_body w s" e "''Error listing Route 53 hosted zones:''"]
      try_except_passes [of "list_route53_hosted_zones_body w s" e] b2
    by simp
  have e3: "api_outcome w (ec2 s) ''describe_instances'' (ip_filter instance_ip) = Inl e \<longrightarrow>
        (if isinstance_Exception e
         then error_report ''Error getting EC2 instance size:'' e (fst (get_ec2_instance_size w instance_ip s))
         else fst (get_ec2_instance_size w instance_ip s) = Inl e)"
    unfolding get_ec2_instance_size_def
    using error_report_caught [of "get_ec2_instance_size_body w instance_ip s" e "''Error getting EC2 instance size:''"]
      try_except_passes [of "get_ec2_instance_size_body w instance_ip s" e] b3
    by simp
  have e4: "api_outcome w (iam s) ''list_attached_user_policies'' [(''UserName'', PStr user_name)] = Inl e \<longrightarrow>
        (if isinstance_Exception e
         then error_report ''Error getting user permissions:'' e (fst (get_user_permissions w user_name s))
         else fst (get_user_permissions w user_name s) = Inl e)"
    unfolding get_user_permissions_def
    using error_report_caught [of "get_user_permissions_body w user_name s" e "''Error getting user permissions:''"]
      try_except_passes [of "get_user_permissions_body w user_name s" e] b4
    by simp
  have e5: "client_outcome w ''s3'' (aws_access_key_id s) (aws_secret_access_key s) (region_name s) = Some e \<longrightarrow>
        (if isinstance_Exception e
         then error_report ''Error listing S3 buckets:'' e (fst (list_s3_buckets w s))
         else fst (list_s3_buckets w s) = Inl e)"
    unfolding list_s3_buckets_def
    using error_report_caught [of "list_s3_buckets_body w s" e "''Error listing S3 buckets:''"]
      try_except_passes [of "list_s3_buckets_body w s" e] b5
    by simp
  have e6: "s3_constructed w s \<and> api_outcome w (s3_handle s) ''list_buckets'' [] = Inl e \<longrightarrow>
        (if isinstance_Exception e
         then error_report ''Error listing S3 buckets:'' e (fst (list_s3_buckets w s))
         else fst (list_s3_buckets w s) = Inl e)"
    unfolding list_s3_buckets_def
    using error_report_caught [of "list_s3_buckets_body w s" e "''Error listing S3 buckets:''"]
      try_except_passes [of "list_s3_buckets_body w s" e] b6
    by simp
  show ?thesis
    by (intro conjI) (rule r1 r2 r3 r4 r5 e1 e2 e3 e4 e5 e6)+
qed

text \<open>
  The claim as first written, that no exception ever leaves a tool, fails when the provider
  call is interrupted: \<^verbatim>\<open>KeyboardInterrupt\<close> is not an instance of \<^verbatim>\<open>Exception\<close>, so it leaves
  \<^verbatim>\<open>list_route53_hosted_zones\<close> and \<^verbatim>\<open>aws_cli_command\<close> instead of becoming a string.
\<close>

theorem tools_absorb_errors_counterexample:
  "api_outcome interrupted_world (route53 sample_state) ''list_hosted_zones'' [] = Inl interrupt
   \<and> fst (list_route53_hosted_zones interrupted_world sample_state) = Inl interrupt
   \<and> isl (fst (list_route53_hosted_zones interrupted_world sample_state))
   \<and> run_outcome interrupted_world (''aws'' # py_split ''s3 ls'') (cli_env sample_state) = Inl interrupt
   \<and> fst (aws_cli_command interrupted_world ''s3 ls'' sample_state) = Inl interrupt"
  by (simp add: list_route53_hosted_zones_def list_route53_hosted_zones_body_def call_api_def
      aws_cli_command_def aws_cli_command_body_def fst_try_except interrupted_world_def
      interrupt_def isinstance_Exception_def base_only_classes_def)

theorem tools_absorb_errors_witness:
  "raises_only_exceptions (run_outcome failing_world (''aws'' # py_split ''s3 ls'') (cli_env sample_state))
   \<and> run_outcome failing_world (''aws'' # py_split ''s3 ls'') (cli_env sample_state) = Inl denied
   \<and> isinstance_Exception denied
   \<and> fst (aws_cli_command failing_world ''s3 ls'' sample_state)
        = Inr ''Error executing AWS command: An error occurred (AccessDenied)''
   \<and> error_report ''Error executing AWS command:'' denied (fst (aws_cli_command failing_world ''s3 ls'' sample_state))
   \<and> api_outcome failing_world (route53 sample_state) ''list_hosted_zones'' [] = Inl denied
   \<and> error_report ''Error listing Route 53 hosted zones:'' denied (fst (list_route53_hosted_zones failing_world sample_state))
   \<and> api_outcome failing_world (ec2 sample_state) ''describe_instances'' (ip_filter ''10.0.1.112'') = Inl denied
   \<and> error_report ''Error getting EC2 instance size:'' denied
        (fst (get_ec2_instance_size failing_world ''10.0.1.112'' sample_state))
   \<and> api_outcome failing_world (iam sample_state) ''list_attached_user_policies''
        [(''UserName'', PStr ''take-home-coding'')] = Inl denied
   \<and> error_report ''Error getting user permissions:'' denied
        (fst (get_user_permissions failing_world ''take-home-coding'' sample_state))
   \<and> client_outcome failing_world ''s3'' (aws_access_key_id sample_state)
        (aws_secret_access_key sample_state) (region_name sample_state) = Some denied
   \<and> error_report ''Error listing S3 buckets:'' denied (fst (list_s3_buckets failing_world sample_state))
   \<and> s3_constructed refusing_world sample_state
   \<and> api_outcome refusing_world (s3_handle sample_state) ''list_buckets'' [] = Inl denied
   \<and> error_report ''Error listing S3 buckets:'' denied (fst (list_s3_buckets refusing_world sample_state))
   \<and> \<not> isl (fst (aws_cli_command failing_world ''s3 ls'' sample_state))
   \<and> \<not> isl (fst (list_route53_hosted_zones failing_world sample_state))
   \<and> \<not> isl (fst (get_ec2_instance_size failing_world ''10.0.1.112'' sample_state))
   \<and> \<not> isl (fst (get_user_permissions failing_world ''take-home-coding'' sample_state))
   \<and> \<not> isl (fst (list_s3_buckets failing_world sample_state))
   \<and> \<not> isl (fst (list_s3_buckets refusing_world sample_state))
   \<and> \<not> isinstance_Exception interrupt
   \<and> s3_constructed interrupted_api_world sample_state
   \<and> api_outcome interrupted_api_world (s3_handle sample_state) ''list_buckets'' [] = Inl interrupt
   \<and> fst (list_s3_buckets interrupted_api_world sample_state) = Inl interrupt
   \<and> fst (get_ec2_instance_size interrupted_api_world ''10.0.1.112'' sample_state) = Inl interrupt
   \<and> fst (get_user_permissions interrupted_api_world ''take-home-coding'' sample_state) = Inl interrupt
   \<and> fst (list_s3_buckets interrupted_world sample_state) = Inl interrupt"
proof -
  have d: "isinstance_Exception denied" "\<not> isinstance_Exception interrupt"
    by (simp_all add: denied_def interrupt_def isinstance_Exception_def base_only_classes_def)
  have f: "run_outcome failing_world (''aws'' # py_split ''s3 ls'') (cli_env sample_state) = Inl denied"
    "api_outcome failing_world (route53 sample_state) ''list_hosted_zones'' [] = Inl denied"
    "api_outcome failing_world (ec2 sample_state) ''describe_instances'' (ip_filter ''10.0.1.112'') = Inl denied"
    "api_outcome failing_world (iam sample_state) ''list_attached_user_policies''
        [(''UserName'', PStr ''take-home-coding'')] = Inl denied"
    "client_outcome failing_world ''s3'' (aws_access_key_id sample_state)
        (aws_secret_access_key sample_state) (region_name sample_state) = Some denied"
    "api_outcome failing_world (s3_handle sample_state) ''list_buckets'' [] = Inl denied"
    by (simp_all add: failing_world_def)
  have g: "s3_constructed refusing_world sample_state"
    "client_outcome refusing_world ''s3'' (aws_access_key_id sample_state)
        (aws_secret_access_key sample_state) (region_name sample_state) = None"
    "api_outcome refusing_world (s3_handle sample_state) ''list_buckets'' [] = Inl denied"
    by (simp_all add: refusing_world_def failing_world_def s3_constructed_def)
  have i: "s3_constructed interrupted_api_world sample_state"
    "api_outcome interrupted_api_world (s3_handle sample_state) ''list_buckets'' [] = Inl interrupt"
    "api_outcome interrupted_api_world (ec2 sample_state) ''describe_instances'' (ip_filter ''10.0.1.112'') = Inl interrupt"
    "api_outcome interrupted_api_world (iam sample_state) ''list_attached_user_policies''
        [(''UserName'', PStr ''take-home-coding'')] = Inl interrupt"
    "client_outcome interrupted_world ''s3'' (aws_access_key_id sample_state)
        (aws_secret_access_key sample_state) (region_name sample_state) = Some interrupt"
    by (simp_all add: interrupted_api_world_def interrupted_world_def s3_constructed_def)
  have v: "fst (aws_cli_command failing_world ''s3 ls'' sample_state)
        = Inr ''Error executing AWS command: An error occurred (AccessDenied)''"
    using d(1) f(1)
    by (simp add: aws_cli_command_def aws_cli_command_body_def fst_try_except) (simp add: denied_def)
  note failing = tools_absorb_errors [of failing_world "''s3 ls''" sample_state "''10.0.1.112''"
        "''take-home-coding''" denied]
  note refusing = tools_absorb_errors [of refusing_world "''s3 ls''" sample_state "''10.0.1.112''"
        "''take-home-coding''" denied]
  note stopped = tools_absorb_errors [of interrupted_api_world "''s3 ls''" sample_state "''10.0.1.112''"
        "''take-home-coding''" interrupt]
  note stopped_early = tools_absorb_errors [of interrupted_world "''s3 ls''" sample_state "''10.0.1.112''"
        "''take-home-coding''" interrupt]
  have a: "error_report ''Error executing AWS command:'' denied (fst (aws_cli_command failing_world ''s3 ls'' sample_state))"
    "error_report ''Error listing Route 53 hosted zones:'' denied (fst (list_route53_hosted_zones failing_world sample_state))"
    "error_report ''Error getting EC2 instance size:'' denied
        (fst (get_ec2_instance_size failing_world ''10.0.1.112'' sample_state))"
    "error_report ''Error getting user permissions:'' denied
        (fst (get_user_permissions failing_world ''take-home-coding'' sample_state))"
    "error_report ''Error listing S3 buckets:'' denied (fst (list_s3_buckets failing_world sample_state))"
    using failing d(1) f by simp_all
  have b: "error_report ''Error listing S3 buckets:'' denied (fst (list_s3_buckets refusing_world sample_state))"
    using refusing d(1) g by simp
  have n: "\<not> isl (fst (aws_cli_command failing_world ''s3 ls'' sample_state))"
    "\<not> isl (fst (list_route53_hosted_zones failing_world sample_state))"
    "\<not> isl (fst (get_ec2_instance_size failing_world ''10.0.1.112'' sample_state))"
    "\<not> isl (fst (get_user_permissions failing_world ''take-home-coding'' sample_state))"
    "\<not> isl (fst (list_s3_buckets failing_world sample_state))"
    using failing d(1) f by simp_all
  have m: "\<not> isl (fst (list_s3_buckets refusing_world sample_state))"
    using refusing d(1) g by simp
  have p: "fst (list_s3_buckets interrupted_api_world sample_state) = Inl interrupt"
    "fst (get_ec2_instance_size interrupted_api_world ''10.0.1.112'' sample_state) = Inl interrupt"
    "fst (get_user_permissions interrupted_api_world ''take-home-coding'' sample_state) = Inl interrupt"
    using stopped d(2) i by simp_all
  have q: "fst (list_s3_buckets interrupted_world sample_state) = Inl interrupt"
    using stopped_early d(2) i(5) by simp
  have o: "raises_only_exceptions (run_outcome failing_world (''aws'' # py_split ''s3 ls'') (cli_env sample_state))"
    using d(1) f(1) by simp
  show ?thesis
    by (intro conjI) (rule o f d v a b g i n m p q)+
qed

text \<open>
  Claim C9. When the answer of \<^verbatim>\<open>describe_instances\<close> has a first reservation whose
  \<^verbatim>\<open>Instances\<close> list is empty, \<^verbatim>\<open>get_ec2_instance_size\<close> returns the text
  \<^verbatim>\<open>Error getting EC2 instance size: list index out of range\<close>: the \<^verbatim>\<open>IndexError\<close> of
  \<^verbatim>\<open>['Instances'][0]\<close> is caught by the handler of the function, and the result is not the
  \<^verbatim>\<open>No EC2 instance found\<close> message.
\<close>

theorem instance_size_empty_reservation:
  "api_outcome w (ec2 s) ''describe_instances'' (ip_filter ip) = Inr (PDict d)
   \<and> map_of d ''Reservations'' = Some (PList (PDict r # rs))
   \<and> map_of r ''Instances'' = Some (PList []) \<longrightarrow>
     fst (get_ec2_instance_size w ip s) = Inr (''Error getting EC2 instance size: list index out of range'')
     \<and> startswith ''Error getting EC2 instance size:'' ''Error getting EC2 instance size: list index out of range''
     \<and> fst (get_ec2_instance_size w ip s) \<noteq> Inr (''No EC2 instance found with IP address: '' @ ip)"
  by (simp add: get_ec2_instance_size_def get_ec2_instance_size_body_def call_api_def fst_try_except)

theorem instance_size_empty_reservation_witness:
  "api_outcome empty_reservation_world (ec2 sample_state) ''describe_instances'' (ip_filter ''10.0.1.112'')
     = Inr (PDict [(''Reservations'', PList [PDict [(''Instances'', PList [])]])])
   \<and> map_of [(''Reservations'', PList [PDict [(''Instances'', PList [])]])] ''Reservations''
       = Some (PList [PDict [(''Instances'', PList [])]])
   \<and> map_of [(''Instances'', PList [])] ''Instances'' = Some (PList [])
   \<and> fst (get_ec2_instance_size empty_reservation_world ''10.0.1.112'' sample_state)
       = Inr ''Error getting EC2 instance size: list index out of range''
   \<and> fst (get_ec2_instance_size empty_reservation_world ''10.0.1.112'' sample_state)
       \<noteq> Inr ''No EC2 instance found with IP address: 10.0.1.112''"
proof -
  have h: "api_outcome empty_reservation_world (ec2 sample_state) ''describe_instances'' (ip_filter ''10.0.1.112'')
     = Inr (PDict [(''Reservations'', PList [PDict [(''Instances'', PList [])]])])"
    by (simp add: empty_reservation_world_def)
  show ?thesis
    using instance_size_empty_reservation [of empty_reservation_world sample_state "''10.0.1.112''"
        "[(''Reservations'', PList [PDict [(''Instances'', PList [])]])]"
        "[(''Instances'', PList [])]" "[]"] h
    by simp
qed

section \<open>The CLI-command tool\<close>

text \<open>
  Claim C2. Given the input \<^verbatim>\<open>ec2 describe-regions\<close>, \<^verbatim>\<open>aws_cli_command\<close> makes exactly one
  external call: it runs \<^verbatim>\<open>aws\<close> with the argument list \<^verbatim>\<open>["ec2", "describe-regions"]\<close> in
  a copy of the process environment in which \<^verbatim>\<open>AWS_ACCESS_KEY_ID\<close>,
  \<^verbatim>\<open>AWS_SECRET_ACCESS_KEY\<close> and \<^verbatim>\<open>AWS_DEFAULT_REGION\<close> are set to the module's three
  credential values, every other variable being as in the process. On exit code zero it returns
  the captured standard output; on any other exit code it returns \<^verbatim>\<open>Error: \<close> followed by the
  captured standard error.
\<close>

theorem cli_describe_regions:
  "new_events s (snd (aws_cli_command w ''ec2 describe-regions'' s))
     = [SubprocessRun [''aws'', ''ec2'', ''describe-regions''] (cli_env s)]
   \<and> cli_env s ''AWS_ACCESS_KEY_ID'' = Some (aws_access_key_id s)
   \<and> cli_env s ''AWS_SECRET_ACCESS_KEY'' = Some (aws_secret_access_key s)
   \<and> cli_env s ''AWS_DEFAULT_REGION'' = Some (region_name s)
   \<and> (name \<notin> {''AWS_ACCESS_KEY_ID'', ''AWS_SECRET_ACCESS_KEY'', ''AWS_DEFAULT_REGION''} \<longrightarrow>
        cli_env s name = map_option Some (os_environ s name))
   \<and> (run_outcome w [''aws'', ''ec2'', ''describe-regions''] (cli_env s) = Inr result
        \<and> returncode result = 0 \<longrightarrow>
        fst (aws_cli_command w ''ec2 describe-regions'' s) = Inr (stdout result))
   \<and> (run_outcome w [''aws'', ''ec2'', ''describe-regions''] (cli_env s) = Inr result
        \<and> returncode result \<noteq> 0 \<longrightarrow>
        fst (aws_cli_command w ''ec2 describe-regions'' s) = Inr (''Error: '' @ stderr result)
        \<and> startswith ''Error:'' (''Error: '' @ stderr result)
        \<and> py_in (stderr result) (''Error: '' @ stderr result))"
proof -
  have sp: "py_split ''ec2 describe-regions'' = [''ec2'', ''describe-regions'']"
    by (simp add: py_split_def isspace_def py_ord_def)
  have ev: "new_events s (snd (aws_cli_command w ''ec2 describe-regions'' s))
     = [SubprocessRun [''aws'', ''ec2'', ''describe-regions''] (cli_env s)]"
    using new_events_append [OF trace_aws_cli_command [of w "''ec2 describe-regions''" s]]
    by (simp only: sp)
  have env: "cli_env s ''AWS_ACCESS_KEY_ID'' = Some (aws_access_key_id s)"
    "cli_env s ''AWS_SECRET_ACCESS_KEY'' = Some (aws_secret_access_key s)"
    "cli_env s ''AWS_DEFAULT_REGION'' = Some (region_name s)"
    "name \<notin> {''AWS_ACCESS_KEY_ID'', ''AWS_SECRET_ACCESS_KEY'', ''AWS_DEFAULT_REGION''} \<longrightarrow>
        cli_env s name = map_option Some (os_environ s name)"
    by (simp_all add: cli_env_def)
  have ok: "run_outcome w [''aws'', ''ec2'', ''describe-regions''] (cli_env s) = Inr result
        \<and> returncode result = 0 \<longrightarrow>
        fst (aws_cli_command w ''ec2 describe-regions'' s) = Inr (stdout result)"
    by (simp add: aws_cli_command_def aws_cli_command_body_def fst_try_except sp)
  have bad: "run_outcome w [''aws'', ''ec2'', ''describe-regions''] (cli_env s) = Inr result
        \<and> returncode result \<noteq> 0 \<longrightarrow>
        fst (aws_cli_command w ''ec2 describe-regions'' s) = Inr (''Error: '' @ stderr result)"
    by (simp add: aws_cli_command_def aws_cli_command_body_def fst_try_except sp)
  have pre: "startswith ''Error:'' (''Error: '' @ stderr result)"
    by simp
  have sub: "py_in (stderr result) (''Error: '' @ stderr result)"
    by (rule py_in_suffix)
  show ?thesis
    using ev env ok bad pre sub by blast
qed

theorem cli_describe_regions_witness:
  "''HOME'' \<notin> {''AWS_ACCESS_KEY_ID'', ''AWS_SECRET_ACCESS_KEY'', ''AWS_DEFAULT_REGION''}
   \<and> cli_env sample_state ''HOME'' = Some (Some ''/root'')
   \<and> cli_env sample_state ''AWS_ACCESS_KEY_ID'' = Some (Some ''AKIAEXAMPLE'')
   \<and> run_outcome sample_world [''aws'', ''ec2'', ''describe-regions''] (cli_env sample_state)
        = Inr \<lparr>returncode = 0, stdout = ''us-east-1'', stderr = []\<rparr>
   \<and> fst (aws_cli_command sample_world ''ec2 describe-regions'' sample_state) = Inr ''us-east-1''
   \<and> run_outcome cli_error_world [''aws'', ''ec2'', ''describe-regions''] (cli_env sample_state)
        = Inr \<lparr>returncode = 254, stdout = [], stderr = ''Unable to locate credentials''\<rparr>
   \<and> fst (aws_cli_command cli_error_world ''ec2 describe-regions'' sample_state)
        = Inr ''Error: Unable to locate credentials''"
proof -
  have h0: "''HOME'' \<notin> {''AWS_ACCESS_KEY_ID'', ''AWS_SECRET_ACCESS_KEY'', ''AWS_DEFAULT_REGION''}"
    by simp
  have h1: "run_outcome sample_world [''aws'', ''ec2'', ''describe-regions''] (cli_env sample_state)
        = Inr \<lparr>returncode = 0, stdout = ''us-east-1'', stderr = []\<rparr>"
    by (simp add: sample_world_def)
  have h2: "run_outcome cli_error_world [''aws'', ''ec2'', ''describe-regions''] (cli_env sample_state)
        = Inr \<lparr>returncode = 254, stdout = [], stderr = ''Unable to locate credentials''\<rparr>"
    by (simp add: cli_error_world_def sample_world_def)
  have e: "os_environ sample_state ''HOME'' = Some ''/root''"
    "aws_access_key_id sample_state = Some ''AKIAEXAMPLE''"
    by (simp_all add: sample_state_def sample_environ_def)
  show ?thesis
    using cli_describe_regions [of sample_state sample_world "''HOME''"
        "\<lparr>returncode = 0, stdout = ''us-east-1'', stderr = []\<rparr>"]
      cli_describe_regions [of sample_state cli_error_world "''HOME''"
        "\<lparr>returncode = 254, stdout = [], stderr = ''Unable to locate credentials''\<rparr>"]
      h0 h1 h2 e
    by simp
qed

text \<open>
  Claim C10. The argument list of the child process is \<^verbatim>\<open>command.split()\<close>: no argument is
  empty or contains whitespace, the arguments concatenated are the input without its whitespace,
  a run of whitespace of any length between two parts separates them exactly as the parts
  split on their own (so runs are collapsed), and a word without whitespace is one argument.
  For an input that is empty or all whitespace the argument list is empty and \<^verbatim>\<open>aws\<close> is run
  with no argument.
\<close>

theorem cli_argument_list:
  "(\<forall>t\<in>set (py_split command). t \<noteq> [] \<and> (\<forall>c\<in>set t. \<not> isspace c))
   \<and> concat (py_split command) = filter (\<lambda>c. \<not> isspace c) command
   \<and> (gap \<noteq> [] \<and> (\<forall>c\<in>set gap. isspace c) \<longrightarrow> py_split (a @ gap @ b) = py_split a @ py_split b)
   \<and> (word \<noteq> [] \<and> (\<forall>c\<in>set word. \<not> isspace c) \<longrightarrow> py_split word = [word])
   \<and> new_events s (snd (aws_cli_command w command s))
        = [SubprocessRun (''aws'' # py_split command) (cli_env s)]
   \<and> ((\<forall>c\<in>set command. isspace c) \<longrightarrow>
        py_split command = []
        \<and> new_events s (snd (aws_cli_command w command s)) = [SubprocessRun [''aws''] (cli_env s)])"
proof -
  have tokens: "\<forall>t\<in>set (py_split command). t \<noteq> [] \<and> (\<forall>c\<in>set t. \<not> isspace c)"
    using split_scan_tokens [of "[]" _ command] by (simp add: py_split_def)
  have cat: "concat (py_split command) = filter (\<lambda>c. \<not> isspace c) command"
    by (simp add: py_split_def split_scan_concat)
  have gaps: "gap \<noteq> [] \<and> (\<forall>c\<in>set gap. isspace c) \<longrightarrow> py_split (a @ gap @ b) = py_split a @ py_split b"
    using split_scan_gap [of gap "[]" a b] split_scan_trailing [of gap "[]" a]
    by (simp add: py_split_def)
  have one: "word \<noteq> [] \<and> (\<forall>c\<in>set word. \<not> isspace c) \<longrightarrow> py_split word = [word]"
    using split_scan_word [of word "[]"] by (simp add: py_split_def)
  have ev: "new_events s (snd (aws_cli_command w command s))
        = [SubprocessRun (''aws'' # py_split command) (cli_env s)]"
    by (rule new_events_append) (rule trace_aws_cli_command)
  have blank: "(\<forall>c\<in>set command. isspace c) \<longrightarrow> py_split command = []"
    using split_scan_trailing [of command "[]" "[]"] by (simp add: py_split_def)
  show ?thesis
    using tokens cat gaps one ev blank by simp
qed

theorem cli_argument_list_witness:
  "py_split ''  s3   ls  '' = [''s3'', ''ls'']
   \<and> concat (py_split ''  s3   ls  '') = ''s3ls''
   \<and> ''   '' \<noteq> [] \<and> list_all isspace ''   ''
   \<and> py_split (''s3'' @ ''   '' @ ''ls'') = py_split ''s3'' @ py_split ''ls''
   \<and> ''s3'' \<noteq> [] \<and> list_all (\<lambda>c. \<not> isspace c) ''s3''
   \<and> py_split ''s3'' = [''s3'']
   \<and> list_all isspace [CHR '' '', CHR 0x09, CHR 0x0A]
   \<and> py_split [CHR '' '', CHR 0x09, CHR 0x0A] = []
   \<and> new_events sample_state (snd (aws_cli_command sample_world [CHR '' '', CHR 0x09, CHR 0x0A] sample_state))
        = [SubprocessRun [''aws''] (cli_env sample_state)]
   \<and> py_split [] = []
   \<and> new_events sample_state (snd (aws_cli_command sample_world [] sample_state))
        = [SubprocessRun [''aws''] (cli_env sample_state)]"
proof -
  have sp: "isspace (CHR '' '')" "isspace (CHR 0x09)" "isspace (CHR 0x0A)"
    "\<not> isspace (CHR ''s'')" "\<not> isspace (CHR ''3'')" "\<not> isspace (CHR ''l'')"
    by (simp_all add: isspace_def py_ord_def)
  have h: "list_all isspace ''   ''" "list_all (\<lambda>c. \<not> isspace c) ''s3''"
    "list_all isspace [CHR '' '', CHR 0x09, CHR 0x0A]"
    by (simp_all add: sp)
  have n: "''   '' \<noteq> []" "''s3'' \<noteq> []"
    by simp_all
  have v: "py_split ''  s3   ls  '' = [''s3'', ''ls'']"
    by (simp add: py_split_def sp)
  have e: "py_split [] = []"
    by (simp add: py_split_def)
  note words = cli_argument_list [of "''  s3   ls  ''" "''   ''" "''s3''" "''ls''" "''s3''" sample_state sample_world]
  note blank = cli_argument_list [of "[CHR '' '', CHR 0x09, CHR 0x0A]" "''   ''" "''s3''" "''ls''" "''s3''" sample_state sample_world]
  have a: "py_split (''s3'' @ ''   '' @ ''ls'') = py_split ''s3'' @ py_split ''ls''"
    using words h(1) by (simp only: list_all_iff; blast)
  have b: "py_split ''s3'' = [''s3'']"
    using words h(2) by (simp only: list_all_iff; blast)
  have c: "concat (py_split ''  s3   ls  '') = ''s3ls''"
    using words by (simp add: v)
  have d: "py_split [CHR '' '', CHR 0x09, CHR 0x0A] = []
      \<and> new_events sample_state (snd (aws_cli_command sample_world [CHR '' '', CHR 0x09, CHR 0x0A] sample_state))
        = [SubprocessRun [''aws''] (cli_env sample_state)]"
    using blank h(3) by (simp only: list_all_iff; blast)
  have f: "new_events sample_state (snd (aws_cli_command sample_world [] sample_state))
        = [SubprocessRun [''aws''] (cli_env sample_state)]"
    using cli_argument_list [of "[]" "''   ''" "''s3''" "''ls''" "''s3''" sample_state sample_world]
    by simp
  show ?thesis
    using v a b c d e f n h by blast
qed

section \<open>The instance-size tool\<close>

text \<open>
  Claim C3. For every private IP given to \<^verbatim>\<open>get_ec2_instance_size\<close>: when the answer of
  \<^verbatim>\<open>describe_instances\<close> has an empty \<^verbatim>\<open>Reservations\<close> list, the result is
  \<^verbatim>\<open>No EC2 instance found with IP address: \<close> followed by the IP; when the answer has at least
  one reservation, the result names the \<^verbatim>\<open>InstanceType\<close> of the first instance of the first
  reservation, whatever the further reservations \<open>rs\<close> and instances \<open>is\<close> are.
\<close>

theorem instance_size_lookup:
  "(api_outcome w (ec2 s) ''describe_instances'' (ip_filter ip) = Inr (PDict d)
      \<and> map_of d ''Reservations'' = Some (PList []) \<longrightarrow>
      fst (get_ec2_instance_size w ip s) = Inr (''No EC2 instance found with IP address: '' @ ip)
      \<and> py_in ip (''No EC2 instance found with IP address: '' @ ip))
   \<and> (api_outcome w (ec2 s) ''describe_instances'' (ip_filter ip) = Inr (PDict d)
      \<and> map_of d ''Reservations'' = Some (PList (PDict r # rs))
      \<and> map_of r ''Instances'' = Some (PList (PDict i # is))
      \<and> map_of i ''InstanceType'' = Some (PStr t) \<longrightarrow>
      fst (get_ec2_instance_size w ip s) = Inr (''EC2 instance '' @ ip @ '' is of type: '' @ t)
      \<and> py_in t (''EC2 instance '' @ ip @ '' is of type: '' @ t))"
proof -
  have sub1: "py_in ip (''No EC2 instance found with IP address: '' @ ip)"
    by (rule py_in_suffix)
  have sub2: "py_in t ((''EC2 instance '' @ ip @ '' is of type: '') @ t)"
    by (rule py_in_suffix)
  show ?thesis
    using sub1 sub2
    by (simp add: get_ec2_instance_size_def get_ec2_instance_size_body_def call_api_def fst_try_except)
qed

theorem instance_size_lookup_witness:
  "api_outcome no_instance_world (ec2 sample_state) ''describe_instances'' (ip_filter ''10.0.1.112'')
     = Inr (PDict [(''Reservations'', PList [])])
   \<and> map_of [(''Reservations'', PList [])] ''Reservations'' = Some (PList [])
   \<and> fst (get_ec2_instance_size no_instance_world ''10.0.1.112'' sample_state)
       = Inr ''No EC2 instance found with IP address: 10.0.1.112''
   \<and> api_outcome sample_world (ec2 sample_state) ''describe_instances'' (ip_filter ''10.0.1.112'')
       = Inr (sample_response ''describe_instances'')
   \<and> fst (get_ec2_instance_size sample_world ''10.0.1.112'' sample_state)
       = Inr ''EC2 instance 10.0.1.112 is of type: t2.micro''"
proof -
  have h1: "api_outcome no_instance_world (ec2 sample_state) ''describe_instances'' (ip_filter ''10.0.1.112'')
     = Inr (PDict [(''Reservations'', PList [])])"
    by (simp add: no_instance_world_def)
  have h2: "api_outcome sample_world (ec2 sample_state) ''describe_instances'' (ip_filter ''10.0.1.112'')
     = Inr (PDict [(''Reservations'',
                PList [PDict [(''Instances'', PList [PDict [(''InstanceId'', PStr ''i-0abc''),
                                                            (''InstanceType'', PStr ''t2.micro'')]])]])])"
    by (simp add: sample_world_def sample_response_def)
  show ?thesis
    using instance_size_lookup [of no_instance_world sample_state "''10.0.1.112''"
        "[(''Reservations'', PList [])]" "[]" "[]" "[]" "[]" "[]"] h1
      instance_size_lookup [of sample_world sample_state "''10.0.1.112''"
        "[(''Reservations'',
                PList [PDict [(''Instances'', PList [PDict [(''InstanceId'', PStr ''i-0abc''),
                                                            (''InstanceType'', PStr ''t2.micro'')]])]])]"
        "[(''Instances'', PList [PDict [(''InstanceId'', PStr ''i-0abc''), (''InstanceType'', PStr ''t2.micro'')]])]"
        "[]" "[(''InstanceId'', PStr ''i-0abc''), (''InstanceType'', PStr ''t2.micro'')]" "[]" "''t2.micro''"] h2
    by (simp add: sample_world_def sample_response_def)
qed

subsection \<open>The harness\<close>

lemma only_exceptions_outcomes:
  assumes "only_exceptions w"
  shows "raises_only_exceptions (api_outcome w c method kwargs)"
    and "raises_only_exceptions (run_outcome w argv env)"
    and "raises_only_exceptions (chain_outcome w query)"
    and "case client_outcome w svc k sk r of Some e \<Rightarrow> isinstance_Exception e | None \<Rightarrow> True"
  using assms by (simp_all add: only_exceptions_def)

lemma invoke_returns: "only_exceptions w \<Longrightarrow> \<not> isl (fst (invoke w call s))"
  by (cases call)
    (simp_all add: aws_cli_command_def list_route53_hosted_zones_def get_ec2_instance_size_def
      get_user_permissions_def list_s3_buckets_def try_except_returns only_exceptions_outcomes
      aws_cli_command_body_raises list_route53_hosted_zones_body_raises
      get_ec2_instance_size_body_raises get_user_permissions_body_raises list_s3_buckets_body_raises)

lemma invoke_escapes: "fst (invoke w call s) = Inl e \<Longrightarrow> \<not> isinstance_Exception e"
  by (cases call)
    (auto simp: aws_cli_command_def list_route53_hosted_zones_def get_ec2_instance_size_def
      get_user_permissions_def list_s3_buckets_def dest: try_except_escapes)

lemma trace_invoke:
  "\<exists>evs. trace (snd (invoke w call s)) = trace s @ ToolInvoke call # evs \<and> list_all is_provider_call evs"
proof (cases call)
  case (AwsCliCommand command)
  then show ?thesis by (simp add: trace_aws_cli_command)
next
  case ListRoute53HostedZones
  then show ?thesis by (simp add: trace_list_route53_hosted_zones)
next
  case (GetEc2InstanceSize ip)
  then show ?thesis by (simp add: trace_get_ec2_instance_size)
next
  case (GetUserPermissions user)
  then show ?thesis by (simp add: trace_get_user_permissions)
next
  case ListS3Buckets
  then show ?thesis by (simp add: trace_list_s3_buckets s3_construction_def)
qed

lemma calls_and_prints:
  "list_all (\<lambda>ev. is_provider_call ev \<or> is_print ev) evs \<Longrightarrow>
     filter is_tool_invoke evs = [] \<and> filter is_chain_invoke evs = []"
proof (induction evs)
  case Nil
  then show ?case by simp
next
  case (Cons ev evs)
  then show ?case by (cases ev) simp_all
qed

lemma run_tool_returns: "only_exceptions w \<Longrightarrow> fst (run_tool w announcement call s) = Inr ()"
proof -
  assume ok: "only_exceptions w"
  obtain r s1 where "invoke w call (emit (Print (CHR 0x0A # announcement)) s) = (r, s1)"
    by (cases "invoke w call (emit (Print (CHR 0x0A # announcement)) s)")
  moreover from this have "\<not> isl r"
    using invoke_returns [OF ok, of call "emit (Print (CHR 0x0A # announcement)) s"] by simp
  ultimately show ?thesis
    by (cases r) (simp_all add: run_tool_def)
qed

lemma run_tool_escapes: "fst (run_tool w announcement call s) = Inl e \<Longrightarrow> \<not> isinstance_Exception e"
proof -
  assume esc: "fst (run_tool w announcement call s) = Inl e"
  obtain r s1 where inv: "invoke w call (emit (Print (CHR 0x0A # announcement)) s) = (r, s1)"
    by (cases "invoke w call (emit (Print (CHR 0x0A # announcement)) s)")
  with esc have "r = Inl e"
    by (cases r) (simp_all add: run_tool_def)
  with inv show ?thesis
    using invoke_escapes [of w call "emit (Print (CHR 0x0A # announcement)) s" e] by simp
qed

lemma trace_run_tool:
  "\<exists>evs. trace (snd (run_tool w announcement call s))
       = trace s @ Print (CHR 0x0A # announcement) # ToolInvoke call # evs
     \<and> list_all (\<lambda>ev. is_provider_call ev \<or> is_print ev) evs"
proof -
  obtain r s1 where inv: "invoke w call (emit (Print (CHR 0x0A # announcement)) s) = (r, s1)"
    by (cases "invoke w call (emit (Print (CHR 0x0A # announcement)) s)")
  obtain evs where evs: "trace s1 = trace (emit (Print (CHR 0x0A # announcement)) s) @ ToolInvoke call # evs"
      "list_all is_provider_call evs"
    using trace_invoke [of w call "emit (Print (CHR 0x0A # announcement)) s"] inv by auto
  have quiet: "list_all (\<lambda>ev. is_provider_call ev \<or> is_print ev) evs"
    using evs(2) by (simp add: list_all_iff)
  show ?thesis
  proof (cases r)
    case (Inl e)
    then have "trace (snd (run_tool w announcement call s))
       = trace s @ Print (CHR 0x0A # announcement) # ToolInvoke call # evs"
      using inv evs(1) by (simp add: run_tool_def)
    with quiet show ?thesis by (intro exI [of _ evs]) simp
  next
    case (Inr out)
    then have "trace (snd (run_tool w announcement call s))
       = trace s @ Print (CHR 0x0A # announcement) # ToolInvoke call # (evs @ [Print (''Result: '' @ out)])"
      using inv evs(1) by (simp add: run_tool_def)
    with quiet show ?thesis by (intro exI [of _ "evs @ [Print (''Result: '' @ out)]"]) simp
  qed
qed

lemma dispatch_rule_table:
  "dispatch w query s =
     (case rule_table query of
        None \<Rightarrow> (Inr (), s)
      | Some ListS3Buckets \<Rightarrow> run_tool w ''Executing S3 bucket listing...'' ListS3Buckets s
      | Some ListRoute53HostedZones \<Rightarrow>
          run_tool w ''Executing Route 53 hosted zones listing...'' ListRoute53HostedZones s
      | Some (GetEc2InstanceSize ip) \<Rightarrow> run_tool w ''Getting EC2 instance size...'' (GetEc2InstanceSize ip) s
      | Some (GetUserPermissions user) \<Rightarrow>
          run_tool w ''Getting IAM user permissions...'' (GetUserPermissions user) s
      | Some (AwsCliCommand command) \<Rightarrow> (Inr (), s))"
  by (simp add: dispatch_def rule_table_def)

lemma dispatch_returns: "only_exceptions w \<Longrightarrow> fst (dispatch w query s) = Inr ()"
  by (simp add: dispatch_rule_table run_tool_returns split: option.splits tool_call.splits)

lemma dispatch_escapes: "fst (dispatch w query s) = Inl e \<Longrightarrow> \<not> isinstance_Exception e"
  by (auto simp: dispatch_rule_table split: option.splits tool_call.splits dest: run_tool_escapes)

lemma rule_table_no_cli: "rule_table query \<noteq> Some (AwsCliCommand command)"
  by (simp add: rule_table_def)

lemma trace_dispatch:
  "\<exists>evs. trace (snd (dispatch w query s)) = trace s @ evs
     \<and> filter is_tool_invoke evs = (case rule_table query of None \<Rightarrow> [] | Some call \<Rightarrow> [ToolInvoke call])
     \<and> filter is_chain_invoke evs = []"
proof (cases "rule_table query")
  case None
  then show ?thesis by (simp add: dispatch_rule_table)
next
  case (Some call)
  then obtain announcement where d: "dispatch w query s = run_tool w announcement call s"
    using rule_table_no_cli [of query]
    by (cases call) (simp_all add: dispatch_rule_table)
  obtain evs where evs: "trace (snd (run_tool w announcement call s))
       = trace s @ Print (CHR 0x0A # announcement) # ToolInvoke call # evs"
      "list_all (\<lambda>ev. is_provider_call ev \<or> is_print ev) evs"
    using trace_run_tool [of w announcement call s] by blast
  have "filter is_tool_invoke (Print (CHR 0x0A # announcement) # ToolInvoke call # evs) = [ToolInvoke call]"
    "filter is_chain_invoke (Print (CHR 0x0A # announcement) # ToolInvoke call # evs) = []"
    using calls_and_prints [OF evs(2)] by simp_all
  with evs(1) d Some show ?thesis by simp
qed

lemma query_body_failed:
  "chain_outcome w query = Inl e \<Longrightarrow>
     fst (query_body w query s) = Inl e \<and> trace (snd (query_body w query s)) = trace s @ preamble query"
  by (simp add: query_body_def chain_invoke_def preamble_def)

lemma run_query_failed:
  "chain_outcome w query = Inl e \<Longrightarrow> isinstance_Exception e
     \<Longrightarrow> error_print_outcome w (''Error: '' @ exc_text e) = None \<Longrightarrow>
     fst (run_query w query s) = Inr ()
     \<and> trace (snd (run_query w query s)) = trace s @ preamble query @ [Print (''Error: '' @ exc_text e)]"
  by (simp add: run_query_def query_body_def chain_invoke_def preamble_def error_print_def)

lemma run_query_interrupted:
  "chain_outcome w query = Inl e \<Longrightarrow> \<not> isinstance_Exception e \<Longrightarrow>
     fst (run_query w query s) = Inl e
     \<and> trace (snd (run_query w query s)) = trace s @ preamble query"
  by (simp add: run_query_def query_body_def chain_invoke_def preamble_def)

lemma run_query_print_fails:
  "chain_outcome w query = Inl e \<Longrightarrow> isinstance_Exception e
     \<Longrightarrow> error_print_outcome w (''Error: '' @ exc_text e) = Some x \<Longrightarrow>
     fst (run_query w query s) = Inl x
     \<and> trace (snd (run_query w query s)) = trace s @ preamble query"
  by (simp add: run_query_def query_body_def chain_invoke_def preamble_def error_print_def)

lemma run_query_answered:
  "chain_outcome w query = Inr content \<Longrightarrow>
     run_query w query s
       = dispatch w query
            (emit (Print content) (emit (Print ''Agent response:'')
              (emit (ChainInvoke query) (emit (Print banner) (emit (Print (''Query: '' @ query))
                (emit (Print (CHR 0x0A # banner)) s))))))"
proof -
  let ?s5 = "emit (Print content) (emit (Print ''Agent response:'')
              (emit (ChainInvoke query) (emit (Print banner) (emit (Print (''Query: '' @ query))
                (emit (Print (CHR 0x0A # banner)) s)))))"
  assume c: "chain_outcome w query = Inr content"
  obtain r s6 where d: "dispatch w query ?s5 = (r, s6)"
    by (cases "dispatch w query ?s5")
  show ?thesis
  proof (cases r)
    case (Inl e)
    then have "\<not> isinstance_Exception e"
      using dispatch_escapes [of w query ?s5 e] d by simp
    with c d Inl show ?thesis
      by (simp add: run_query_def query_body_def chain_invoke_def)
  next
    case (Inr u)
    with c d show ?thesis
      by (simp add: run_query_def query_body_def chain_invoke_def)
  qed
qed

lemma trace_run_query_answered:
  "chain_outcome w query = Inr content \<Longrightarrow>
     \<exists>evs. trace (snd (run_query w query s))
         = trace s @ preamble query @ [Print ''Agent response:'', Print content] @ evs
       \<and> filter is_tool_invoke evs = (case rule_table query of None \<Rightarrow> [] | Some call \<Rightarrow> [ToolInvoke call])
       \<and> filter is_chain_invoke evs = []
       \<and> (rule_table query = None \<longrightarrow> evs = [])"
proof -
  let ?s5 = "emit (Print content) (emit (Print ''Agent response:'')
              (emit (ChainInvoke query) (emit (Print banner) (emit (Print (''Query: '' @ query))
                (emit (Print (CHR 0x0A # banner)) s)))))"
  assume c: "chain_outcome w query = Inr content"
  obtain evs where evs: "trace (snd (dispatch w query ?s5)) = trace ?s5 @ evs"
      "filter is_tool_invoke evs = (case rule_table query of None \<Rightarrow> [] | Some call \<Rightarrow> [ToolInvoke call])"
      "filter is_chain_invoke evs = []"
    using trace_dispatch [of w query ?s5] by blast
  have none: "rule_table query = None \<longrightarrow> evs = []"
    using evs(1) by (simp add: dispatch_rule_table split: option.splits)
  have "trace (snd (run_query w query s))
         = trace s @ preamble query @ [Print ''Agent response:'', Print content] @ evs"
    using evs(1) by (simp add: run_query_answered [OF c] preamble_def)
  with evs(2,3) none show ?thesis by (intro exI [of _ evs]) simp
qed

lemma trace_run_query:
  "\<exists>evs. trace (snd (run_query w query s)) = trace s @ evs
     \<and> filter is_chain_invoke evs = [ChainInvoke query]"
proof (cases "chain_outcome w query")
  case (Inl e)
  show ?thesis
  proof (cases "isinstance_Exception e")
    case False
    then show ?thesis
      using run_query_interrupted [OF Inl, of s] by (simp add: preamble_def)
  next
    case True
    show ?thesis
    proof (cases "error_print_outcome w (''Error: '' @ exc_text e)")
      case None
      then show ?thesis
        using run_query_failed [OF Inl True, of s] by (simp add: preamble_def)
    next
      case (Some x)
      then show ?thesis
        using run_query_print_fails [OF Inl True, of x s] by (simp add: preamble_def)
    qed
  qed
next
  case (Inr content)
  then obtain evs where "trace (snd (run_query w query s))
         = trace s @ preamble query @ [Print ''Agent response:'', Print content] @ evs"
      "filter is_chain_invoke evs = []"
    using trace_run_query_answered [of w query content s] by blast
  then show ?thesis by (simp add: preamble_def)
qed

lemma run_query_returns:
  "only_exceptions w \<Longrightarrow> error_prints_return w \<Longrightarrow> fst (run_query w query s) = Inr ()"
proof -
  assume ok: "only_exceptions w" and pr: "error_prints_return w"
  show ?thesis
  proof (cases "chain_outcome w query")
    case (Inl e)
    have "isinstance_Exception e"
      using only_exceptions_outcomes(3) [OF ok, of query] Inl by simp
    moreover have "error_print_outcome w (''Error: '' @ exc_text e) = None"
      using pr by (simp add: error_prints_return_def)
    ultimately show ?thesis
      using run_query_failed [OF Inl, of s] by simp
  next
    case (Inr content)
    then show ?thesis
      by (simp add: run_query_answered dispatch_returns [OF ok])
  qed
qed

lemma for_each_run_query:
  "only_exceptions w \<Longrightarrow> error_prints_return w \<Longrightarrow>
     fst (for_each (run_query w) qs s) = Inr ()
     \<and> (\<exists>evs. trace (snd (for_each (run_query w) qs s)) = trace s @ evs
          \<and> filter is_chain_invoke evs = map ChainInvoke qs)"
proof (induction qs arbitrary: s)
  case Nil
  then show ?case by simp
next
  case (Cons q qs)
  obtain s1 where step: "run_query w q s = (Inr (), s1)"
    using run_query_returns [OF Cons.prems, of q s] by (cases "run_query w q s") simp
  obtain evs1 where evs1: "trace s1 = trace s @ evs1" "filter is_chain_invoke evs1 = [ChainInvoke q]"
    using trace_run_query [of w q s] step by auto
  obtain evs2 where evs2: "trace (snd (for_each (run_query w) qs s1)) = trace s1 @ evs2"
      "filter is_chain_invoke evs2 = map ChainInvoke qs"
    using Cons.IH [OF Cons.prems, of s1] by blast
  have "trace (snd (for_each (run_query w) (q # qs) s)) = trace s @ (evs1 @ evs2)"
    using step evs1(1) evs2(1) by simp
  moreover have "filter is_chain_invoke (evs1 @ evs2) = map ChainInvoke (q # qs)"
    using evs1(2) evs2(2) by simp
  moreover have "fst (for_each (run_query w) (q # qs) s) = Inr ()"
    using step Cons.IH [OF Cons.prems, of s1] by simp
  ultimately show ?case by blast
qed

lemma invocations_dispatch:
  "invocations s (snd (dispatch w query s))
     = (case rule_table query of None \<Rightarrow> [] | Some call \<Rightarrow> [ToolInvoke call])"
proof -
  obtain evs where "trace (snd (dispatch w query s)) = trace s @ evs"
      "filter is_tool_invoke evs = (case rule_table query of None \<Rightarrow> [] | Some call \<Rightarrow> [ToolInvoke call])"
    using trace_dispatch [of w query s] by blast
  then show ?thesis
    by (simp add: invocations_def new_events_def)
qed

lemma invocations_run_query:
  "chain_outcome w query = Inr content \<Longrightarrow>
     invocations s (snd (run_query w query s))
       = (case rule_table query of None \<Rightarrow> [] | Some call \<Rightarrow> [ToolInvoke call])"
proof -
  assume c: "chain_outcome w query = Inr content"
  obtain evs where "trace (snd (run_query w query s))
         = trace s @ preamble query @ [Print ''Agent response:'', Print content] @ evs"
      "filter is_tool_invoke evs = (case rule_table query of None \<Rightarrow> [] | Some call \<Rightarrow> [ToolInvoke call])"
    using trace_run_query_answered [OF c, of s] by blast
  then show ?thesis
    by (simp add: invocations_def new_events_def preamble_def)
qed

section \<open>The query harness\<close>

text \<open>
  Claim C4. The rule table is a function of the query text and the first matching rule wins:
  for one query, two evaluations of the rule chain, in any two worlds and states, invoke the
  same tools, at most one, namely the one \<open>rule_table\<close> names; the same holds for two whole
  iterations in which the model call returns. A query whose lower-cased text contains
  \<^verbatim>\<open>s3\<close>, \<^verbatim>\<open>bucket\<close> and \<^verbatim>\<open>hosted zone\<close> invokes \<^verbatim>\<open>list_s3_buckets\<close> only; so does
  a query that contains \<^verbatim>\<open>s3 bucket\<close> and \<^verbatim>\<open>hosted zone\<close> as written.
\<close>

theorem dispatch_first_match:
  "invocations s1 (snd (dispatch w1 query s1)) = invocations s2 (snd (dispatch w2 query s2))
   \<and> length (invocations s1 (snd (dispatch w1 query s1))) \<le> 1
   \<and> invocations s1 (snd (dispatch w1 query s1))
        = (case rule_table query of None \<Rightarrow> [] | Some call \<Rightarrow> [ToolInvoke call])
   \<and> (chain_outcome w1 query = Inr c1 \<and> chain_outcome w2 query = Inr c2 \<longrightarrow>
        invocations s1 (snd (run_query w1 query s1)) = invocations s2 (snd (run_query w2 query s2))
        \<and> invocations s1 (snd (run_query w1 query s1))
             = (case rule_table query of None \<Rightarrow> [] | Some call \<Rightarrow> [ToolInvoke call]))
   \<and> (py_in ''s3'' (py_lower query) \<and> py_in ''bucket'' (py_lower query)
        \<and> py_in ''hosted zone'' (py_lower query) \<longrightarrow>
        invocations s1 (snd (dispatch w1 query s1)) = [ToolInvoke ListS3Buckets]
        \<and> (chain_outcome w1 query = Inr c1 \<longrightarrow>
             invocations s1 (snd (run_query w1 query s1)) = [ToolInvoke ListS3Buckets]))
   \<and> (py_in ''s3 bucket'' query \<and> py_in ''hosted zone'' query \<longrightarrow>
        invocations s1 (snd (dispatch w1 query s1)) = [ToolInvoke ListS3Buckets])"
proof -
  have same: "invocations s1 (snd (dispatch w1 query s1)) = invocations s2 (snd (dispatch w2 query s2))"
    by (simp add: invocations_dispatch)
  have one: "length (invocations s1 (snd (dispatch w1 query s1))) \<le> 1"
    by (simp add: invocations_dispatch split: option.splits)
  have whole: "chain_outcome w1 query = Inr c1 \<and> chain_outcome w2 query = Inr c2 \<longrightarrow>
        invocations s1 (snd (run_query w1 query s1)) = invocations s2 (snd (run_query w2 query s2))
        \<and> invocations s1 (snd (run_query w1 query s1))
             = (case rule_table query of None \<Rightarrow> [] | Some call \<Rightarrow> [ToolInvoke call])"
    by (simp add: invocations_run_query)
  have s3: "py_in ''s3'' (py_lower query) \<and> py_in ''bucket'' (py_lower query)
        \<and> py_in ''hosted zone'' (py_lower query) \<longrightarrow> rule_table query = Some ListS3Buckets"
    by (simp add: rule_table_def)
  have first: "py_in ''s3'' (py_lower query) \<and> py_in ''bucket'' (py_lower query)
        \<and> py_in ''hosted zone'' (py_lower query) \<longrightarrow>
        invocations s1 (snd (dispatch w1 query s1)) = [ToolInvoke ListS3Buckets]
        \<and> (chain_outcome w1 query = Inr c1 \<longrightarrow>
             invocations s1 (snd (run_query w1 query s1)) = [ToolInvoke ListS3Buckets])"
    using s3 by (simp add: invocations_dispatch invocations_run_query)
  have table: "invocations s1 (snd (dispatch w1 query s1))
        = (case rule_table query of None \<Rightarrow> [] | Some call \<Rightarrow> [ToolInvoke call])"
    by (rule invocations_dispatch)
  have written: "py_in ''s3 bucket'' query \<and> py_in ''hosted zone'' query \<longrightarrow>
        invocations s1 (snd (dispatch w1 query s1)) = [ToolInvoke ListS3Buckets]"
  proof (intro impI, elim conjE)
    assume a: "py_in ''s3 bucket'' query" and b: "py_in ''hosted zone'' query"
    have low: "py_lower ''s3 bucket'' = ''s3 bucket''"
      by (simp add: py_lower_def lower_char_def py_ord_def)
    have l: "py_in (''s3'' @ '' bucket'') (py_lower query)" "py_in (''s3 '' @ ''bucket'') (py_lower query)"
      using py_in_lower [OF a] by (simp_all add: low)
    have "py_in ''s3'' (py_lower query)" "py_in ''bucket'' (py_lower query)"
      using py_in_left [OF l(1)] py_in_right [OF l(2)] by simp_all
    then have "rule_table query = Some ListS3Buckets"
      by (simp add: rule_table_def)
    then show "invocations s1 (snd (dispatch w1 query s1)) = [ToolInvoke ListS3Buckets]"
      by (simp add: invocations_dispatch)
  qed
  show ?thesis
    by (intro conjI) (rule same one table whole first written)+
qed

theorem dispatch_first_match_witness:
  "chain_outcome sample_world ''Which S3 bucket backs my hosted zone?'' = Inr ''I can help with that.''
   \<and> chain_outcome refusing_world ''Which S3 bucket backs my hosted zone?'' = Inl denied
   \<and> chain_outcome cli_error_world ''Which S3 bucket backs my hosted zone?'' = Inr ''I can help with that.''
   \<and> py_in ''s3'' (py_lower ''Which S3 bucket backs my hosted zone?'')
   \<and> py_in ''bucket'' (py_lower ''Which S3 bucket backs my hosted zone?'')
   \<and> py_in ''hosted zone'' (py_lower ''Which S3 bucket backs my hosted zone?'')
   \<and> invocations sample_state (snd (dispatch sample_world ''Which S3 bucket backs my hosted zone?'' sample_state))
        = [ToolInvoke ListS3Buckets]
   \<and> invocations sample_state (snd (dispatch refusing_world ''Which S3 bucket backs my hosted zone?'' sample_state))
        = [ToolInvoke ListS3Buckets]
   \<and> invocations sample_state (snd (run_query sample_world ''Which S3 bucket backs my hosted zone?'' sample_state))
        = [ToolInvoke ListS3Buckets]
   \<and> invocations sample_state (snd (run_query cli_error_world ''Which S3 bucket backs my hosted zone?'' sample_state))
        = [ToolInvoke ListS3Buckets]
   \<and> py_in ''s3 bucket'' ''the s3 bucket of a hosted zone''
   \<and> py_in ''hosted zone'' ''the s3 bucket of a hosted zone''
   \<and> invocations sample_state (snd (dispatch sample_world ''the s3 bucket of a hosted zone'' sample_state))
        = [ToolInvoke ListS3Buckets]"
proof -
  have low: "py_lower ''Which S3 bucket backs my hosted zone?'' = ''which s3 bucket backs my hosted zone?''"
    by (simp add: py_lower_def lower_char_def py_ord_def char_of_eq_iff)
  have h: "py_in ''s3'' (py_lower ''Which S3 bucket backs my hosted zone?'')"
    "py_in ''bucket'' (py_lower ''Which S3 bucket backs my hosted zone?'')"
    "py_in ''hosted zone'' (py_lower ''Which S3 bucket backs my hosted zone?'')"
    by (simp_all add: low)
  have c: "chain_outcome sample_world ''Which S3 bucket backs my hosted zone?'' = Inr ''I can help with that.''"
    "chain_outcome refusing_world ''Which S3 bucket backs my hosted zone?'' = Inl denied"
    "chain_outcome cli_error_world ''Which S3 bucket backs my hosted zone?'' = Inr ''I can help with that.''"
    by (simp_all add: sample_world_def refusing_world_def failing_world_def cli_error_world_def)
  have a: "invocations sample_state (snd (dispatch sample_world ''Which S3 bucket backs my hosted zone?'' sample_state))
        = [ToolInvoke ListS3Buckets]"
    and b: "invocations sample_state (snd (run_query sample_world ''Which S3 bucket backs my hosted zone?'' sample_state))
        = [ToolInvoke ListS3Buckets]"
    and same: "invocations sample_state (snd (dispatch sample_world ''Which S3 bucket backs my hosted zone?'' sample_state))
        = invocations sample_state (snd (dispatch refusing_world ''Which S3 bucket backs my hosted zone?'' sample_state))"
    using dispatch_first_match [of sample_state sample_world "''Which S3 bucket backs my hosted zone?''"
        sample_state refusing_world "''I can help with that.''" "''I can help with that.''"] h c(1)
    by blast+
  have whole: "invocations sample_state (snd (run_query sample_world ''Which S3 bucket backs my hosted zone?'' sample_state))
        = invocations sample_state (snd (run_query cli_error_world ''Which S3 bucket backs my hosted zone?'' sample_state))"
    using dispatch_first_match [of sample_state sample_world "''Which S3 bucket backs my hosted zone?''"
        sample_state cli_error_world "''I can help with that.''" "''I can help with that.''"] c(1,3)
    by blast
  have g: "py_in ''s3 bucket'' ''the s3 bucket of a hosted zone''"
    "py_in ''hosted zone'' ''the s3 bucket of a hosted zone''"
    by simp_all
  have written: "invocations sample_state (snd (dispatch sample_world ''the s3 bucket of a hosted zone'' sample_state))
        = [ToolInvoke ListS3Buckets]"
    using dispatch_first_match [of sample_state sample_world "''the s3 bucket of a hosted zone''"
        sample_state sample_world "''I can help with that.''" "''I can help with that.''"] g
    by blast
  show ?thesis
    using a b same whole h c g written by simp
qed

text \<open>
  Claim C7. When the query matches none of the four rules, the iteration invokes no tool and
  makes no provider call. If the model call returns, what the iteration prints is its fixed
  opening (the two banner lines around the query line), the label \<^verbatim>\<open>Agent response:\<close> and
  the text of the model, and nothing after it. If the model call raises an instance \<open>e\<close> of
  \<^verbatim>\<open>Exception\<close> and the handler's print returns, the opening is followed by the line
  \<^verbatim>\<open>Error: \<close> with \<^verbatim>\<open>str(e)\<close>; if it raises any other exception, the opening is all that is
  printed.
\<close>

theorem no_rule_no_tool:
  "\<not> (py_in ''s3'' (py_lower query) \<and> py_in ''bucket'' (py_lower query))
   \<and> \<not> (py_in ''route 53'' (py_lower query) \<or> py_in ''hosted zone'' (py_lower query))
   \<and> \<not> (py_in ''ec2'' (py_lower query) \<and> py_in ''10.0.1.112'' query)
   \<and> \<not> (py_in ''iam'' (py_lower query) \<and> py_in ''take-home-coding'' (py_lower query)) \<longrightarrow>
     dispatch w query s = (Inr (), s)
     \<and> invocations s (snd (run_query w query s)) = []
     \<and> filter is_provider_call (new_events s (snd (run_query w query s))) = []
     \<and> (chain_outcome w query = Inr content \<longrightarrow>
          new_events s (snd (run_query w query s))
            = preamble query @ [Print ''Agent response:'', Print content])
     \<and> (chain_outcome w query = Inl e \<and> isinstance_Exception e
          \<and> error_print_outcome w (''Error: '' @ exc_text e) = None \<longrightarrow>
          new_events s (snd (run_query w query s))
            = preamble query @ [Print (''Error: '' @ exc_text e)])
     \<and> (chain_outcome w query = Inl e \<and> \<not> isinstance_Exception e \<longrightarrow>
          new_events s (snd (run_query w query s)) = preamble query)"
proof (intro impI)
  assume no: "\<not> (py_in ''s3'' (py_lower query) \<and> py_in ''bucket'' (py_lower query))
   \<and> \<not> (py_in ''route 53'' (py_lower query) \<or> py_in ''hosted zone'' (py_lower query))
   \<and> \<not> (py_in ''ec2'' (py_lower query) \<and> py_in ''10.0.1.112'' query)
   \<and> \<not> (py_in ''iam'' (py_lower query) \<and> py_in ''take-home-coding'' (py_lower query))"
  then have none: "rule_table query = None"
    by (simp add: rule_table_def)
  have d: "dispatch w query s = (Inr (), s)"
    using none by (simp add: dispatch_rule_table)
  have failed: "chain_outcome w query = Inl e \<and> isinstance_Exception e
          \<and> error_print_outcome w (''Error: '' @ exc_text e) = None \<longrightarrow>
          new_events s (snd (run_query w query s)) = preamble query @ [Print (''Error: '' @ exc_text e)]"
    using run_query_failed [of w query e s] by (simp add: new_events_def)
  have stopped: "chain_outcome w query = Inl e \<and> \<not> isinstance_Exception e \<longrightarrow>
          new_events s (snd (run_query w query s)) = preamble query"
    using run_query_interrupted [of w query e s] by (simp add: new_events_def)
  have answered: "chain_outcome w query = Inr content \<longrightarrow>
          new_events s (snd (run_query w query s)) = preamble query @ [Print ''Agent response:'', Print content]"
    using trace_run_query_answered [of w query content s] none by (auto simp: new_events_def)
  have quiet: "invocations s (snd (run_query w query s)) = []
     \<and> filter is_provider_call (new_events s (snd (run_query w query s))) = []"
  proof (cases "chain_outcome w query")
    case (Inl x)
    show ?thesis
    proof (cases "isinstance_Exception x")
      case False
      then show ?thesis
        using run_query_interrupted [OF Inl, of s]
        by (simp add: invocations_def new_events_def preamble_def)
    next
      case True
      show ?thesis
      proof (cases "error_print_outcome w (''Error: '' @ exc_text x)")
        case None
        then show ?thesis
          using run_query_failed [OF Inl True, of s]
          by (simp add: invocations_def new_events_def preamble_def)
      next
        case (Some y)
        then show ?thesis
          using run_query_print_fails [OF Inl True, of y s]
          by (simp add: invocations_def new_events_def preamble_def)
      qed
    qed
  next
    case (Inr x)
    then show ?thesis
      using trace_run_query_answered [of w query x s] none
      by (auto simp: invocations_def new_events_def preamble_def)
  qed
  show "dispatch w query s = (Inr (), s)
     \<and> invocations s (snd (run_query w query s)) = []
     \<and> filter is_provider_call (new_events s (snd (run_query w query s))) = []
     \<and> (chain_outcome w query = Inr content \<longrightarrow>
          new_events s (snd (run_query w query s))
            = preamble query @ [Print ''Agent response:'', Print content])
     \<and> (chain_outcome w query = Inl e \<and> isinstance_Exception e
          \<and> error_print_outcome w (''Error: '' @ exc_text e) = None \<longrightarrow>
          new_events s (snd (run_query w query s))
            = preamble query @ [Print (''Error: '' @ exc_text e)])
     \<and> (chain_outcome w query = Inl e \<and> \<not> isinstance_Exception e \<longrightarrow>
          new_events s (snd (run_query w query s)) = preamble query)"
    using d failed stopped answered quiet by simp
qed

theorem no_rule_no_tool_witness:
  "\<not> py_in ''s3'' (py_lower ''How many EC2 regions exist?'')
   \<and> \<not> py_in ''route 53'' (py_lower ''How many EC2 regions exist?'')
   \<and> \<not> py_in ''hosted zone'' (py_lower ''How many EC2 regions exist?'')
   \<and> py_in ''ec2'' (py_lower ''How many EC2 regions exist?'')
   \<and> \<not> py_in ''10.0.1.112'' ''How many EC2 regions exist?''
   \<and> \<not> py_in ''iam'' (py_lower ''How many EC2 regions exist?'')
   \<and> chain_outcome sample_world ''How many EC2 regions exist?'' = Inr ''I can help with that.''
   \<and> new_events sample_state (snd (run_query sample_world ''How many EC2 regions exist?'' sample_state))
        = [Print (CHR 0x0A # banner), Print ''Query: How many EC2 regions exist?'', Print banner,
           ChainInvoke ''How many EC2 regions exist?'', Print ''Agent response:'',
           Print ''I can help with that.'']
   \<and> invocations sample_state (snd (run_query sample_world ''How many EC2 regions exist?'' sample_state)) = []
   \<and> chain_outcome failing_world ''How many EC2 regions exist?'' = Inl denied
   \<and> isinstance_Exception denied
   \<and> error_print_outcome failing_world (''Error: '' @ exc_text denied) = None
   \<and> new_events sample_state (snd (run_query failing_world ''How many EC2 regions exist?'' sample_state))
        = [Print (CHR 0x0A # banner), Print ''Query: How many EC2 regions exist?'', Print banner,
           ChainInvoke ''How many EC2 regions exist?'',
           Print ''Error: An error occurred (AccessDenied)'']
   \<and> chain_outcome interrupted_world ''How many EC2 regions exist?'' = Inl interrupt
   \<and> \<not> isinstance_Exception interrupt
   \<and> new_events sample_state (snd (run_query interrupted_world ''How many EC2 regions exist?'' sample_state))
        = [Print (CHR 0x0A # banner), Print ''Query: How many EC2 regions exist?'', Print banner,
           ChainInvoke ''How many EC2 regions exist?'']"
proof -
  have low: "py_lower ''How many EC2 regions exist?'' = ''how many ec2 regions exist?''"
    by (simp add: py_lower_def lower_char_def py_ord_def char_of_eq_iff)
  have h: "\<not> py_in ''s3'' (py_lower ''How many EC2 regions exist?'')"
    "\<not> py_in ''route 53'' (py_lower ''How many EC2 regions exist?'')"
    "\<not> py_in ''hosted zone'' (py_lower ''How many EC2 regions exist?'')"
    "py_in ''ec2'' (py_lower ''How many EC2 regions exist?'')"
    "\<not> py_in ''10.0.1.112'' ''How many EC2 regions exist?''"
    "\<not> py_in ''iam'' (py_lower ''How many EC2 regions exist?'')"
    by (simp_all add: low)
  have c: "chain_outcome sample_world ''How many EC2 regions exist?'' = Inr ''I can help with that.''"
    "chain_outcome failing_world ''How many EC2 regions exist?'' = Inl denied"
    "chain_outcome interrupted_world ''How many EC2 regions exist?'' = Inl interrupt"
    "error_print_outcome failing_world (''Error: '' @ exc_text denied) = None"
    by (simp_all add: sample_world_def failing_world_def interrupted_world_def)
  have k: "isinstance_Exception denied" "\<not> isinstance_Exception interrupt"
    by (simp_all add: denied_def interrupt_def isinstance_Exception_def base_only_classes_def)
  have t: "exc_text denied = ''An error occurred (AccessDenied)''"
    by (simp add: denied_def)
  have a: "new_events sample_state (snd (run_query sample_world ''How many EC2 regions exist?'' sample_state))
        = preamble ''How many EC2 regions exist?'' @ [Print ''Agent response:'', Print ''I can help with that.'']"
    and a2: "invocations sample_state (snd (run_query sample_world ''How many EC2 regions exist?'' sample_state)) = []"
    using no_rule_no_tool [of "''How many EC2 regions exist?''" sample_world sample_state
        "''I can help with that.''" denied] h c(1)
    by blast+
  have b: "new_events sample_state (snd (run_query failing_world ''How many EC2 regions exist?'' sample_state))
        = preamble ''How many EC2 regions exist?'' @ [Print (''Error: '' @ exc_text denied)]"
    using no_rule_no_tool [of "''How many EC2 regions exist?''" failing_world sample_state
        "''I can help with that.''" denied] h c(2,4) k(1)
    by blast
  have i: "new_events sample_state (snd (run_query interrupted_world ''How many EC2 regions exist?'' sample_state))
        = preamble ''How many EC2 regions exist?''"
    using no_rule_no_tool [of "''How many EC2 regions exist?''" interrupted_world sample_state
        "''I can help with that.''" interrupt] h c(3) k(2)
    by blast
  show ?thesis
    using h c k a a2 b i by (simp add: preamble_def t)
qed

text \<open>
  Claim C6, as the script has it. Whatever instance of \<^verbatim>\<open>Exception\<close> the body of an
  iteration raises (a failure of the model call included) is caught by the handler of that
  iteration, which prints \<^verbatim>\<open>Error: \<close> with \<^verbatim>\<open>str(e)\<close>; when that print returns, the
  iteration ends normally and the loop goes on with the next query. When every exception the
  provider, the child process and the model raise is an instance of \<^verbatim>\<open>Exception\<close> and the
  handler's print returns, no exception leaves the loop: \<^verbatim>\<open>test_aws_agent\<close> returns
  normally and has called the model for each of the four queries, in their order. An exception
  that is not an instance of \<^verbatim>\<open>Exception\<close>, and an exception raised by the handler's own
  print, leave the iteration and end the loop.
\<close>

theorem harness_absorbs_errors:
  "(fst (query_body w query s) = Inl e \<and> isinstance_Exception e
      \<and> error_print_outcome w (''Error: '' @ exc_text e) = None \<longrightarrow>
      run_query w query s
        = (Inr (), emit (Print (''Error: '' @ exc_text e)) (snd (query_body w query s))))
   \<and> (chain_outcome w query = Inl e \<and> isinstance_Exception e
      \<and> error_print_outcome w (''Error: '' @ exc_text e) = None \<longrightarrow>
      fst (run_query w query s) = Inr ()
      \<and> new_events s (snd (run_query w query s)) = preamble query @ [Print (''Error: '' @ exc_text e)])
   \<and> (fst (query_body w query s) = Inl e \<and> \<not> isinstance_Exception e \<longrightarrow>
      run_query w query s = (Inl e, snd (query_body w query s)))
   \<and> (fst (query_body w query s) = Inl e \<and> isinstance_Exception e
      \<and> error_print_outcome w (''Error: '' @ exc_text e) = Some x \<longrightarrow>
      run_query w query s = (Inl x, snd (query_body w query s)))
   \<and> (only_exceptions w \<and> error_prints_return w \<longrightarrow>
      fst (run_query w query s) = Inr ()
      \<and> fst (test_aws_agent w s) = Inr ()
      \<and> filter is_chain_invoke (new_events s (snd (test_aws_agent w s))) = map ChainInvoke test_queries)"
proof -
  have caught: "fst (query_body w query s) = Inl e \<and> isinstance_Exception e
      \<and> error_print_outcome w (''Error: '' @ exc_text e) = None \<longrightarrow>
      run_query w query s
        = (Inr (), emit (Print (''Error: '' @ exc_text e)) (snd (query_body w query s)))"
    by (cases "query_body w query s") (simp add: run_query_def error_print_def)
  have failed: "chain_outcome w query = Inl e \<and> isinstance_Exception e
      \<and> error_print_outcome w (''Error: '' @ exc_text e) = None \<longrightarrow>
      fst (run_query w query s) = Inr ()
      \<and> new_events s (snd (run_query w query s)) = preamble query @ [Print (''Error: '' @ exc_text e)]"
    using run_query_failed [of w query e s] by (simp add: new_events_def)
  have passes: "fst (query_body w query s) = Inl e \<and> \<not> isinstance_Exception e \<longrightarrow>
      run_query w query s = (Inl e, snd (query_body w query s))"
    by (cases "query_body w query s") (simp add: run_query_def)
  have handler: "fst (query_body w query s) = Inl e \<and> isinstance_Exception e
      \<and> error_print_outcome w (''Error: '' @ exc_text e) = Some x \<longrightarrow>
      run_query w query s = (Inl x, snd (query_body w query s))"
    by (cases "query_body w query s") (simp add: run_query_def error_print_def)
  have loop: "only_exceptions w \<and> error_prints_return w \<longrightarrow>
      fst (run_query w query s) = Inr ()
      \<and> fst (test_aws_agent w s) = Inr ()
      \<and> filter is_chain_invoke (new_events s (snd (test_aws_agent w s))) = map ChainInvoke test_queries"
  proof (intro impI, elim conjE)
    assume ok: "only_exceptions w" and pr: "error_prints_return w"
    obtain evs where evs: "trace (snd (test_aws_agent w s)) = trace s @ evs"
        "filter is_chain_invoke evs = map ChainInvoke test_queries"
      using for_each_run_query [OF ok pr, of test_queries s] unfolding test_aws_agent_def by blast
    have "fst (test_aws_agent w s) = Inr ()"
      using for_each_run_query [OF ok pr, of test_queries s] by (simp add: test_aws_agent_def)
    moreover have "filter is_chain_invoke (new_events s (snd (test_aws_agent w s))) = map ChainInvoke test_queries"
      using evs by (simp add: new_events_def)
    ultimately show "fst (run_query w query s) = Inr ()
      \<and> fst (test_aws_agent w s) = Inr ()
      \<and> filter is_chain_invoke (new_events s (snd (test_aws_agent w s))) = map ChainInvoke test_queries"
      using run_query_returns [OF ok pr, of query s] by simp
  qed
  show ?thesis
    by (intro conjI) (rule caught failed passes handler loop)+
qed

text \<open>
  The claim as first written, that no exception leaves the loop, fails on two inputs. When
  the first model call is interrupted, \<^verbatim>\<open>KeyboardInterrupt\<close> passes through
  \<^verbatim>\<open>except Exception\<close> and ends \<^verbatim>\<open>test_aws_agent\<close> after one query. When the model call
  fails and the standard output is a broken pipe, the handler's own print raises and ends the
  loop in the same way.
\<close>

theorem harness_absorbs_errors_counterexample:
  "chain_outcome interrupted_world ''List all S3 buckets in my AWS account'' = Inl interrupt
   \<and> fst (run_query interrupted_world ''List all S3 buckets in my AWS account'' sample_state) = Inl interrupt
   \<and> fst (test_aws_agent interrupted_world sample_state) = Inl interrupt
   \<and> filter is_chain_invoke (new_events sample_state (snd (test_aws_agent interrupted_world sample_state)))
        = [ChainInvoke ''List all S3 buckets in my AWS account'']
   \<and> chain_outcome broken_pipe_world ''List all S3 buckets in my AWS account'' = Inl denied
   \<and> error_print_outcome broken_pipe_world ''Error: An error occurred (AccessDenied)'' = Some broken_pipe
   \<and> fst (test_aws_agent broken_pipe_world sample_state) = Inl broken_pipe
   \<and> filter is_chain_invoke (new_events sample_state (snd (test_aws_agent broken_pipe_world sample_state)))
        = [ChainInvoke ''List all S3 buckets in my AWS account'']"
proof -
  have k: "\<not> isinstance_Exception interrupt" "isinstance_Exception denied"
    "exc_text denied = ''An error occurred (AccessDenied)''"
    by (simp_all add: denied_def interrupt_def isinstance_Exception_def base_only_classes_def)
  have c: "chain_outcome interrupted_world ''List all S3 buckets in my AWS account'' = Inl interrupt"
    "chain_outcome broken_pipe_world ''List all S3 buckets in my AWS account'' = Inl denied"
    "error_print_outcome broken_pipe_world ''Error: An error occurred (AccessDenied)'' = Some broken_pipe"
    by (simp_all add: interrupted_world_def broken_pipe_world_def failing_world_def)
  have i: "fst (run_query interrupted_world ''List all S3 buckets in my AWS account'' sample_state) = Inl interrupt"
    "trace (snd (run_query interrupted_world ''List all S3 buckets in my AWS account'' sample_state))
       = trace sample_state @ preamble ''List all S3 buckets in my AWS account''"
    using run_query_interrupted [OF c(1) k(1), of sample_state] by simp_all
  have b: "fst (run_query broken_pipe_world ''List all S3 buckets in my AWS account'' sample_state) = Inl broken_pipe"
    "trace (snd (run_query broken_pipe_world ''List all S3 buckets in my AWS account'' sample_state))
       = trace sample_state @ preamble ''List all S3 buckets in my AWS account''"
    using run_query_print_fails [OF c(2) k(2), of broken_pipe sample_state] c(3)
    by (simp_all add: k(3))
  have li: "test_aws_agent interrupted_world sample_state
      = (Inl interrupt, snd (run_query interrupted_world ''List all S3 buckets in my AWS account'' sample_state))"
    using i(1)
    by (cases "run_query interrupted_world ''List all S3 buckets in my AWS account'' sample_state")
      (simp add: test_aws_agent_def test_queries_def)
  have lb: "test_aws_agent broken_pipe_world sample_state
      = (Inl broken_pipe, snd (run_query broken_pipe_world ''List all S3 buckets in my AWS account'' sample_state))"
    using b(1)
    by (cases "run_query broken_pipe_world ''List all S3 buckets in my AWS account'' sample_state")
      (simp add: test_aws_agent_def test_queries_def)
  show ?thesis
    using c i(1)
    by (simp add: li lb new_events_def i(2) b(2) preamble_def)
qed

theorem harness_absorbs_errors_witness:
  "fst (query_body failing_world ''List all Route 53 hosted zones'' sample_state) = Inl denied
   \<and> chain_outcome failing_world ''List all Route 53 hosted zones'' = Inl denied
   \<and> isinstance_Exception denied
   \<and> error_print_outcome failing_world (''Error: '' @ exc_text denied) = None
   \<and> only_exceptions failing_world \<and> error_prints_return failing_world
   \<and> fst (run_query failing_world ''List all Route 53 hosted zones'' sample_state) = Inr ()
   \<and> new_events sample_state (snd (run_query failing_world ''List all Route 53 hosted zones'' sample_state))
        = [Print (CHR 0x0A # banner), Print ''Query: List all Route 53 hosted zones'', Print banner,
           ChainInvoke ''List all Route 53 hosted zones'',
           Print ''Error: An error occurred (AccessDenied)'']
   \<and> fst (test_aws_agent failing_world sample_state) = Inr ()
   \<and> filter is_chain_invoke (new_events sample_state (snd (test_aws_agent failing_world sample_state)))
        = [ChainInvoke ''List all S3 buckets in my AWS account'',
           ChainInvoke ''List all Route 53 hosted zones'',
           ChainInvoke ''Get the size of EC2 instance with IP 10.0.1.112'',
           ChainInvoke ''Get permissions for IAM user take-home-coding'']
   \<and> fst (query_body interrupted_world ''List all Route 53 hosted zones'' sample_state) = Inl interrupt
   \<and> \<not> isinstance_Exception interrupt
   \<and> fst (run_query interrupted_world ''List all Route 53 hosted zones'' sample_state) = Inl interrupt
   \<and> fst (query_body broken_pipe_world ''List all Route 53 hosted zones'' sample_state) = Inl denied
   \<and> error_print_outcome broken_pipe_world (''Error: '' @ exc_text denied) = Some broken_pipe
   \<and> fst (run_query broken_pipe_world ''List all Route 53 hosted zones'' sample_state) = Inl broken_pipe"
proof -
  have k: "isinstance_Exception denied" "\<not> isinstance_Exception interrupt"
    by (simp_all add: denied_def interrupt_def isinstance_Exception_def base_only_classes_def)
  have h: "fst (query_body failing_world ''List all Route 53 hosted zones'' sample_state) = Inl denied"
    "chain_outcome failing_world ''List all Route 53 hosted zones'' = Inl denied"
    "error_print_outcome failing_world (''Error: '' @ exc_text denied) = None"
    "fst (query_body interrupted_world ''List all Route 53 hosted zones'' sample_state) = Inl interrupt"
    "fst (query_body broken_pipe_world ''List all Route 53 hosted zones'' sample_state) = Inl denied"
    "error_print_outcome broken_pipe_world (''Error: '' @ exc_text denied) = Some broken_pipe"
    by (simp_all add: query_body_def chain_invoke_def failing_world_def interrupted_world_def
        broken_pipe_world_def)
  have o: "only_exceptions failing_world" "error_prints_return failing_world"
    using k(1) by (simp_all add: only_exceptions_def error_prints_return_def failing_world_def)
  have t: "exc_text denied = ''An error occurred (AccessDenied)''"
    by (simp add: denied_def)
  note failing = harness_absorbs_errors [of failing_world "''List all Route 53 hosted zones''"
      sample_state denied broken_pipe]
  note stopped = harness_absorbs_errors [of interrupted_world "''List all Route 53 hosted zones''"
      sample_state interrupt broken_pipe]
  note piped = harness_absorbs_errors [of broken_pipe_world "''List all Route 53 hosted zones''"
      sample_state denied broken_pipe]
  have a: "fst (run_query failing_world ''List all Route 53 hosted zones'' sample_state) = Inr ()"
    and b: "new_events sample_state (snd (run_query failing_world ''List all Route 53 hosted zones'' sample_state))
        = preamble ''List all Route 53 hosted zones'' @ [Print (''Error: '' @ exc_text denied)]"
    using failing h(2,3) k(1) by blast+
  have c: "fst (test_aws_agent failing_world sample_state) = Inr ()"
    and d: "filter is_chain_invoke (new_events sample_state (snd (test_aws_agent failing_world sample_state)))
        = map ChainInvoke test_queries"
    using failing o by blast+
  have i: "fst (run_query interrupted_world ''List all Route 53 hosted zones'' sample_state) = Inl interrupt"
    using stopped h(4) k(2) by simp
  have p: "fst (run_query broken_pipe_world ''List all Route 53 hosted zones'' sample_state) = Inl broken_pipe"
    using piped h(5,6) k(1) by simp
  show ?thesis
    using a b c d i p h k o by (simp add: preamble_def test_queries_def t)
qed

section \<open>Service handles\<close>

lemma snd_list_s3_buckets:
  "snd (list_s3_buckets w s)
     = (if s3_constructed w s
        then emit (ApiCall (s3_handle s) ''list_buckets'' [])
               ((emit (s3_construction s) s)\<lparr>next_ident := Suc (next_ident s)\<rparr>)
        else emit (s3_construction s) s)"
  by (simp add: list_s3_buckets_def list_s3_buckets_body_def boto3_client_def call_api_def
      s3_handle_def s3_construction_def s3_constructed_def split: option.splits)

lemma bootstrap_allocates: "bootstrap w environ = Inr s \<Longrightarrow> handles_allocated s"
  by (auto simp: bootstrap_def handles_allocated_def Let_def split: option.splits)

text \<open>
  Claim C8. Every invocation of \<^verbatim>\<open>list_s3_buckets\<close> asks \<^verbatim>\<open>boto3.client\<close> for a storage
  handle built from the credential triple, before anything else; when the constructor returns,
  the call of \<^verbatim>\<open>list_buckets\<close> goes to that new object, which is none of the three
  module-level handles, and the next invocation gets yet another object. The module-level
  names \<^verbatim>\<open>ec2\<close>, \<^verbatim>\<open>route53\<close> and \<^verbatim>\<open>iam\<close> are left as they were. The other four tools
  construct no handle: each changes the state by its one provider call only.
\<close>

theorem bucket_listing_builds_its_handle:
  "new_events s (snd (list_s3_buckets w s))
     = s3_construction s # (if s3_constructed w s then [ApiCall (s3_handle s) ''list_buckets'' []] else [])
   \<and> s3_construction s = Boto3Client ''s3'' (aws_access_key_id s) (aws_secret_access_key s) (region_name s)
   \<and> ec2 (snd (list_s3_buckets w s)) = ec2 s
   \<and> route53 (snd (list_s3_buckets w s)) = route53 s
   \<and> iam (snd (list_s3_buckets w s)) = iam s
   \<and> (handles_allocated s \<longrightarrow>
        s3_handle s \<noteq> ec2 s \<and> s3_handle s \<noteq> route53 s \<and> s3_handle s \<noteq> iam s
        \<and> handles_allocated (snd (list_s3_buckets w s)))
   \<and> (s3_constructed w s \<longrightarrow>
        ident (s3_handle (snd (list_s3_buckets w s))) = Suc (ident (s3_handle s)))
   \<and> snd (aws_cli_command w command s) = emit (SubprocessRun (''aws'' # py_split command) (cli_env s)) s
   \<and> snd (list_route53_hosted_zones w s) = emit (ApiCall (route53 s) ''list_hosted_zones'' []) s
   \<and> snd (get_ec2_instance_size w instance_ip s)
        = emit (ApiCall (ec2 s) ''describe_instances'' (ip_filter instance_ip)) s
   \<and> snd (get_user_permissions w user_name s)
        = emit (ApiCall (iam s) ''list_attached_user_policies'' [(''UserName'', PStr user_name)]) s
   \<and> filter is_construction (new_events s (snd (aws_cli_command w command s))) = []
   \<and> filter is_construction (new_events s (snd (list_route53_hosted_zones w s))) = []
   \<and> filter is_construction (new_events s (snd (get_ec2_instance_size w instance_ip s))) = []
   \<and> filter is_construction (new_events s (snd (get_user_permissions w user_name s))) = []"
proof -
  have ev: "new_events s (snd (list_s3_buckets w s))
     = s3_construction s # (if s3_constructed w s then [ApiCall (s3_handle s) ''list_buckets'' []] else [])"
    by (rule new_events_append) (rule trace_list_s3_buckets)
  have req: "s3_construction s = Boto3Client ''s3'' (aws_access_key_id s) (aws_secret_access_key s) (region_name s)"
    by (simp add: s3_construction_def)
  have frame: "ec2 (snd (list_s3_buckets w s)) = ec2 s"
    "route53 (snd (list_s3_buckets w s)) = route53 s"
    "iam (snd (list_s3_buckets w s)) = iam s"
    by (simp_all add: snd_list_s3_buckets)
  have fresh: "handles_allocated s \<longrightarrow>
        s3_handle s \<noteq> ec2 s \<and> s3_handle s \<noteq> route53 s \<and> s3_handle s \<noteq> iam s
        \<and> handles_allocated (snd (list_s3_buckets w s))"
  proof -
    have id: "ident (s3_handle s) = next_ident s"
      by (simp add: s3_handle_def)
    have "handles_allocated s \<Longrightarrow> s3_handle s \<noteq> ec2 s \<and> s3_handle s \<noteq> route53 s \<and> s3_handle s \<noteq> iam s"
      using id by (auto simp: handles_allocated_def)
    moreover have "handles_allocated s \<Longrightarrow> handles_allocated (snd (list_s3_buckets w s))"
      by (simp add: handles_allocated_def snd_list_s3_buckets)
    ultimately show ?thesis by blast
  qed
  have again: "s3_constructed w s \<longrightarrow>
        ident (s3_handle (snd (list_s3_buckets w s))) = Suc (ident (s3_handle s))"
    by (simp add: s3_handle_def snd_list_s3_buckets)
  have others: "snd (aws_cli_command w command s) = emit (SubprocessRun (''aws'' # py_split command) (cli_env s)) s"
    "snd (list_route53_hosted_zones w s) = emit (ApiCall (route53 s) ''list_hosted_zones'' []) s"
    "snd (get_ec2_instance_size w instance_ip s)
        = emit (ApiCall (ec2 s) ''describe_instances'' (ip_filter instance_ip)) s"
    "snd (get_user_permissions w user_name s)
        = emit (ApiCall (iam s) ''list_attached_user_policies'' [(''UserName'', PStr user_name)]) s"
    by (simp_all add: aws_cli_command_def aws_cli_command_body_def list_route53_hosted_zones_def
        list_route53_hosted_zones_body_def get_ec2_instance_size_def get_ec2_instance_size_body_def
        get_user_permissions_def get_user_permissions_body_def call_api_def)
  have none: "filter is_construction (new_events s (snd (aws_cli_command w command s))) = []"
    "filter is_construction (new_events s (snd (list_route53_hosted_zones w s))) = []"
    "filter is_construction (new_events s (snd (get_ec2_instance_size w instance_ip s))) = []"
    "filter is_construction (new_events s (snd (get_user_permissions w user_name s))) = []"
    by (simp_all add: others new_events_def)
  show ?thesis
    by (intro conjI) (rule ev req frame fresh again others none)+
qed

theorem bucket_listing_builds_its_handle_witness:
  "bootstrap sample_world sample_environ = Inr sample_state
   \<and> handles_allocated sample_state
   \<and> s3_constructed sample_world sample_state
   \<and> new_events sample_state (snd (list_s3_buckets sample_world sample_state))
       = [Boto3Client ''s3'' (Some ''AKIAEXAMPLE'') (Some ''s3cr3t'') (Some ''us-east-1''),
          ApiCall \<lparr>service = ''s3'', key_id = Some ''AKIAEXAMPLE'', secret = Some ''s3cr3t'',
                   region = Some ''us-east-1'', ident = 3\<rparr> ''list_buckets'' []]
   \<and> s3_handle sample_state \<noteq> ec2 sample_state
   \<and> s3_handle sample_state \<noteq> route53 sample_state
   \<and> s3_handle sample_state \<noteq> iam sample_state
   \<and> handles_allocated (snd (list_s3_buckets sample_world sample_state))
   \<and> ident (s3_handle (snd (list_s3_buckets sample_world sample_state))) = 4
   \<and> iam (snd (list_s3_buckets sample_world sample_state)) = iam sample_state"
proof -
  have b: "bootstrap sample_world sample_environ = Inr sample_state"
    by (simp add: bootstrap_def sample_world_def sample_environ_def sample_state_def Let_def)
  have h: "handles_allocated sample_state"
    using bootstrap_allocates [OF b] .
  have c: "s3_constructed sample_world sample_state"
    by (simp add: s3_constructed_def sample_world_def)
  have v: "s3_handle sample_state = \<lparr>service = ''s3'', key_id = Some ''AKIAEXAMPLE'', secret = Some ''s3cr3t'',
                   region = Some ''us-east-1'', ident = 3\<rparr>"
    by (simp add: s3_handle_def sample_state_def)
  have r: "s3_construction sample_state
      = Boto3Client ''s3'' (Some ''AKIAEXAMPLE'') (Some ''s3cr3t'') (Some ''us-east-1'')"
    by (simp add: s3_construction_def sample_state_def)
  have ev: "new_events sample_state (snd (list_s3_buckets sample_world sample_state))
       = s3_construction sample_state # [ApiCall (s3_handle sample_state) ''list_buckets'' []]"
    and fr: "s3_handle sample_state \<noteq> ec2 sample_state
       \<and> s3_handle sample_state \<noteq> route53 sample_state
       \<and> s3_handle sample_state \<noteq> iam sample_state
       \<and> handles_allocated (snd (list_s3_buckets sample_world sample_state))"
    and nx: "ident (s3_handle (snd (list_s3_buckets sample_world sample_state))) = Suc (ident (s3_handle sample_state))"
    and im: "iam (snd (list_s3_buckets sample_world sample_state)) = iam sample_state"
    using bucket_listing_builds_its_handle [of sample_state sample_world "''s3 ls''" "''10.0.1.112''"
        "''take-home-coding''"] h c
    by simp_all
  show ?thesis
    using b h c ev fr nx im by (simp add: v r)
qed

section \<open>Success reports\<close>

lemma comprehension_named:
  "list_all2 (named key) names items \<Longrightarrow>
     comprehension (\<lambda>v. getitem_key v key) items = Inr (map PStr names)"
  by (induction names items rule: list_all2_induct) (simp_all add: named_def)

lemma plain_escape:
  "isprintable c \<Longrightarrow> c \<noteq> CHR 0x5C \<Longrightarrow> c \<noteq> CHR 0x27 \<Longrightarrow> escape_char (CHR 0x27) c = [c]"
  by (auto simp: escape_char_def isprintable_def py_ord_def)

lemma concat_unescaped:
  "\<forall>c\<in>set n. escape_char q c = [c] \<Longrightarrow> concat (map (escape_char q) n) = n"
  by (induction n) auto

lemma plain_repr: "plain_name n \<Longrightarrow> repr_str n = CHR 0x27 # n @ [CHR 0x27]"
proof -
  assume p: "plain_name n"
  then have q: "repr_quote n = CHR 0x27"
    by (auto simp: repr_quote_def plain_name_def list_all_iff)
  have "\<forall>c\<in>set n. escape_char (CHR 0x27) c = [c]"
    using p by (auto simp: plain_name_def list_all_iff plain_escape)
  then have "concat (map (escape_char (CHR 0x27)) n) = n"
    by (rule concat_unescaped)
  with q show ?thesis by (simp add: repr_str_def)
qed

lemma map_repr_plain:
  "list_all plain_name names \<Longrightarrow> map repr_str names = map (\<lambda>n. CHR 0x27 # n @ [CHR 0x27]) names"
  by (induction names) (auto simp: plain_repr)

lemma after_first_found: "\<exists>x. after_first n (p @ n @ t) = Some (x @ t)"
proof (induction p)
  case Nil
  show ?case
  proof (cases "n @ t")
    case Nil
    then show ?thesis by simp
  next
    case (Cons c cs)
    have "startswith n (n @ t)" by simp
    then have "after_first n (n @ t) = Some (drop (length n) (n @ t))"
      unfolding Cons by simp
    then show ?thesis by simp
  qed
next
  case (Cons a p)
  show ?case
  proof (cases "startswith n (a # p @ n @ t)")
    case True
    have "drop (length n) (a # p @ n @ t) = drop (length n) (a # p @ n) @ t"
      using drop_append [of "length n" "a # p @ n" t] by simp
    with True show ?thesis by simp
  next
    case False
    with Cons show ?thesis by simp
  qed
qed

lemma after_first_split: "after_first n hay = Some r \<Longrightarrow> \<exists>p. hay = p @ n @ r"
proof (induction hay)
  case Nil
  then show ?case by (simp split: if_splits)
next
  case (Cons c cs)
  show ?case
  proof (cases "startswith n (c # cs)")
    case True
    then obtain t where t: "c # cs = n @ t" by (auto simp: startswith_iff)
    from True Cons.prems have "r = drop (length n) (c # cs)" by simp
    then have "r = t" unfolding t by simp
    with t show ?thesis by (intro exI [of _ "[]"]) simp
  next
    case False
    with Cons.prems have "after_first n cs = Some r" by simp
    then obtain p where "cs = p @ n @ r" using Cons.IH by blast
    then show ?thesis by (intro exI [of _ "c # p"]) simp
  qed
qed

lemma in_order_later: "in_order ns t \<Longrightarrow> in_order ns (x @ t)"
proof (induction ns arbitrary: t x)
  case Nil
  then show ?case by simp
next
  case (Cons n ns)
  then obtain r where r: "after_first n t = Some r" "in_order ns r"
    by (auto split: option.splits)
  then obtain p where "t = p @ n @ r" using after_first_split by blast
  then have "x @ t = (x @ p) @ n @ r" by simp
  then obtain y where "after_first n (x @ t) = Some (y @ r)"
    using after_first_found [of n "x @ p" r] by auto
  with Cons.IH [OF r(2), of y] show ?case by simp
qed

lemma in_order_next: "in_order ns t \<Longrightarrow> in_order (n # ns) (p @ n @ t)"
proof -
  assume t: "in_order ns t"
  obtain y where "after_first n (p @ n @ t) = Some (y @ t)"
    using after_first_found [of n p t] by blast
  with in_order_later [OF t, of y] show ?thesis by simp
qed

lemma py_join_Cons: "py_join sep (x # xs) = x @ (if xs = [] then [] else sep @ py_join sep xs)"
  by (cases xs) simp_all

lemma in_order_quoted:
  "in_order names (py_join sep (map (\<lambda>n. CHR 0x27 # n @ [CHR 0x27]) names) @ t)"
proof (induction names)
  case Nil
  show ?case by simp
next
  case (Cons n ns)
  let ?rest = "(if ns = [] then [] else sep @ py_join sep (map (\<lambda>n. CHR 0x27 # n @ [CHR 0x27]) ns)) @ t"
  have "in_order ns ?rest"
  proof (cases "ns = []")
    case True
    then show ?thesis by simp
  next
    case False
    then show ?thesis
      using in_order_later [OF Cons.IH, of sep] by simp
  qed
  then have "in_order ns ([CHR 0x27] @ ?rest)"
    by (rule in_order_later)
  then have "in_order (n # ns) ([CHR 0x27] @ n @ [CHR 0x27] @ ?rest)"
    by (rule in_order_next)
  then show ?case
    by (simp add: py_join_Cons)
qed

lemma in_order_display:
  "list_all plain_name names \<Longrightarrow> in_order names (label @ list_display names)"
proof -
  assume p: "list_all plain_name names"
  have "label @ list_display names
      = (label @ ''['') @ py_join '', '' (map (\<lambda>n. CHR 0x27 # n @ [CHR 0x27]) names) @ '']''"
    unfolding list_display_def map_repr_plain [OF p] by simp
  then show ?thesis
    using in_order_later [OF in_order_quoted [of names "'', ''" "'']''"], of "label @ ''[''"] by simp
qed

text \<open>
  Claim C5, as the script has it. On a success response whose items carry the names
  \<open>n1, ..., nk\<close>, each of the three listing tools returns its label followed by the Python
  display of the list of names, \<^verbatim>\<open>[repr(n1), ..., repr(nk)]\<close>, in the order of the
  response; the result does not start with \<^verbatim>\<open>Error\<close>, and when every name is made of
  printable characters other than the backslash and the single quote, the names occur in the
  result verbatim, one after the other in that order. The instance-size tool returns a text
  that contains the instance type verbatim and does not start with \<^verbatim>\<open>Error\<close>. The
  CLI-command tool returns the standard output unchanged on exit code zero.
\<close>

theorem success_reports:
  "(api_outcome w (route53 s) ''list_hosted_zones'' [] = Inr (PDict zd)
      \<and> map_of zd ''HostedZones'' = Some (PList zones)
      \<and> list_all2 (named ''Name'') zone_names zones \<longrightarrow>
      fst (list_route53_hosted_zones w s) = Inr (''Route 53 Hosted Zones: '' @ list_display zone_names)
      \<and> \<not> startswith ''Error'' (''Route 53 Hosted Zones: '' @ list_display zone_names)
      \<and> (list_all plain_name zone_names \<longrightarrow>
           in_order zone_names (''Route 53 Hosted Zones: '' @ list_display zone_names)))
   \<and> (api_outcome w (iam s) ''list_attached_user_policies'' [(''UserName'', PStr user_name)] = Inr (PDict pd)
      \<and> map_of pd ''AttachedPolicies'' = Some (PList policies)
      \<and> list_all2 (named ''PolicyName'') policy_names policies \<longrightarrow>
      fst (get_user_permissions w user_name s)
        = Inr (''IAM user '' @ [CHR 0x27] @ user_name @ [CHR 0x27] @ '' has these policies: ''
               @ list_display policy_names)
      \<and> \<not> startswith ''Error'' (''IAM user '' @ [CHR 0x27] @ user_name @ [CHR 0x27]
               @ '' has these policies: '' @ list_display policy_names)
      \<and> (list_all plain_name policy_names \<longrightarrow>
           in_order policy_names (''IAM user '' @ [CHR 0x27] @ user_name @ [CHR 0x27]
               @ '' has these policies: '' @ list_display policy_names)))
   \<and> (s3_constructed w s
      \<and> api_outcome w (s3_handle s) ''list_buckets'' [] = Inr (PDict bd)
      \<and> map_of bd ''Buckets'' = Some (PList buckets)
      \<and> list_all2 (named ''Name'') bucket_names buckets \<longrightarrow>
      fst (list_s3_buckets w s) = Inr (''S3 Buckets: '' @ list_display bucket_names)
      \<and> \<not> startswith ''Error'' (''S3 Buckets: '' @ list_display bucket_names)
      \<and> (list_all plain_name bucket_names \<longrightarrow>
           in_order bucket_names (''S3 Buckets: '' @ list_display bucket_names)))
   \<and> (api_outcome w (ec2 s) ''describe_instances'' (ip_filter ip) = Inr (PDict d)
      \<and> map_of d ''Reservations'' = Some (PList (PDict r # rs))
      \<and> map_of r ''Instances'' = Some (PList (PDict i # is))
      \<and> map_of i ''InstanceType'' = Some (PStr t) \<longrightarrow>
      fst (get_ec2_instance_size w ip s) = Inr (''EC2 instance '' @ ip @ '' is of type: '' @ t)
      \<and> py_in t (''EC2 instance '' @ ip @ '' is of type: '' @ t)
      \<and> \<not> startswith ''Error'' (''EC2 instance '' @ ip @ '' is of type: '' @ t))
   \<and> (run_outcome w (''aws'' # py_split command) (cli_env s) = Inr result \<and> returncode result = 0 \<longrightarrow>
      fst (aws_cli_command w command s) = Inr (stdout result))"
proof -
  have zones: "api_outcome w (route53 s) ''list_hosted_zones'' [] = Inr (PDict zd)
      \<and> map_of zd ''HostedZones'' = Some (PList zones)
      \<and> list_all2 (named ''Name'') zone_names zones \<longrightarrow>
      fst (list_route53_hosted_zones w s) = Inr (''Route 53 Hosted Zones: '' @ list_display zone_names)"
  proof (intro impI, elim conjE)
    assume a: "api_outcome w (route53 s) ''list_hosted_zones'' [] = Inr (PDict zd)"
      and b: "map_of zd ''HostedZones'' = Some (PList zones)"
      and c: "list_all2 (named ''Name'') zone_names zones"
    show "fst (list_route53_hosted_zones w s) = Inr (''Route 53 Hosted Zones: '' @ list_display zone_names)"
      using a b
      by (simp add: list_route53_hosted_zones_def list_route53_hosted_zones_body_def call_api_def
          fst_try_except comprehension_named [OF c] list_display_def comp_def)
  qed
  have policies: "api_outcome w (iam s) ''list_attached_user_policies'' [(''UserName'', PStr user_name)] = Inr (PDict pd)
      \<and> map_of pd ''AttachedPolicies'' = Some (PList policies)
      \<and> list_all2 (named ''PolicyName'') policy_names policies \<longrightarrow>
      fst (get_user_permissions w user_name s)
        = Inr (''IAM user '' @ [CHR 0x27] @ user_name @ [CHR 0x27] @ '' has these policies: ''
               @ list_display policy_names)"
  proof (intro impI, elim conjE)
    assume a: "api_outcome w (iam s) ''list_attached_user_policies'' [(''UserName'', PStr user_name)] = Inr (PDict pd)"
      and b: "map_of pd ''AttachedPolicies'' = Some (PList policies)"
      and c: "list_all2 (named ''PolicyName'') policy_names policies"
    show "fst (get_user_permissions w user_name s)
        = Inr (''IAM user '' @ [CHR 0x27] @ user_name @ [CHR 0x27] @ '' has these policies: ''
               @ list_display policy_names)"
      using a b
      by (simp add: get_user_permissions_def get_user_permissions_body_def call_api_def
          fst_try_except comprehension_named [OF c] list_display_def comp_def)
  qed
  have buckets: "s3_constructed w s
      \<and> api_outcome w (s3_handle s) ''list_buckets'' [] = Inr (PDict bd)
      \<and> map_of bd ''Buckets'' = Some (PList buckets)
      \<and> list_all2 (named ''Name'') bucket_names buckets \<longrightarrow>
      fst (list_s3_buckets w s) = Inr (''S3 Buckets: '' @ list_display bucket_names)"
  proof (intro impI, elim conjE)
    assume k: "s3_constructed w s"
      and a: "api_outcome w (s3_handle s) ''list_buckets'' [] = Inr (PDict bd)"
      and b: "map_of bd ''Buckets'' = Some (PList buckets)"
      and c: "list_all2 (named ''Name'') bucket_names buckets"
    show "fst (list_s3_buckets w s) = Inr (''S3 Buckets: '' @ list_display bucket_names)"
      using k a b
      by (simp add: list_s3_buckets_def list_s3_buckets_body_def boto3_client_def call_api_def
          s3_constructed_def s3_handle_def fst_try_except comprehension_named [OF c]
          list_display_def comp_def)
  qed
  have size: "api_outcome w (ec2 s) ''describe_instances'' (ip_filter ip) = Inr (PDict d)
      \<and> map_of d ''Reservations'' = Some (PList (PDict r # rs))
      \<and> map_of r ''Instances'' = Some (PList (PDict i # is))
      \<and> map_of i ''InstanceType'' = Some (PStr t) \<longrightarrow>
      fst (get_ec2_instance_size w ip s) = Inr (''EC2 instance '' @ ip @ '' is of type: '' @ t)"
    by (simp add: get_ec2_instance_size_def get_ec2_instance_size_body_def call_api_def fst_try_except)
  have cli: "run_outcome w (''aws'' # py_split command) (cli_env s) = Inr result \<and> returncode result = 0 \<longrightarrow>
      fst (aws_cli_command w command s) = Inr (stdout result)"
    by (simp add: aws_cli_command_def aws_cli_command_body_def fst_try_except)
  have no_prefix: "\<not> startswith ''Error'' (''Route 53 Hosted Zones: '' @ list_display zone_names)"
    "\<not> startswith ''Error'' (''IAM user '' @ [CHR 0x27] @ user_name @ [CHR 0x27]
               @ '' has these policies: '' @ list_display policy_names)"
    "\<not> startswith ''Error'' (''S3 Buckets: '' @ list_display bucket_names)"
    "\<not> startswith ''Error'' (''EC2 instance '' @ ip @ '' is of type: '' @ t)"
    by simp_all
  have ordered: "list_all plain_name zone_names \<longrightarrow>
           in_order zone_names (''Route 53 Hosted Zones: '' @ list_display zone_names)"
    "list_all plain_name policy_names \<longrightarrow>
           in_order policy_names ((''IAM user '' @ [CHR 0x27] @ user_name @ [CHR 0x27]
               @ '' has these policies: '') @ list_display policy_names)"
    "list_all plain_name bucket_names \<longrightarrow>
           in_order bucket_names (''S3 Buckets: '' @ list_display bucket_names)"
    by (blast intro: in_order_display)+
  have type_shown: "py_in t ((''EC2 instance '' @ ip @ '' is of type: '') @ t)"
    by (rule py_in_suffix)
  show ?thesis
    using zones policies buckets size cli no_prefix ordered type_shown
    by (simp only: append_assoc) blast
qed

text \<open>
  The claim as first written, that the result contains every item name and carries no
  \<^verbatim>\<open>Error\<close> prefix, fails on two inputs. The zone name \<^verbatim>\<open>ex\100mple.com.\<close> holds a
  backslash, which \<^verbatim>\<open>repr\<close> doubles, so the name does not occur in the result of
  \<^verbatim>\<open>list_route53_hosted_zones\<close>. A CLI command that succeeds and writes
  \<^verbatim>\<open>Error budget: 5%\<close> makes \<^verbatim>\<open>aws_cli_command\<close> return exactly that text.
\<close>

theorem success_reports_counterexample:
  "api_outcome escaped_zone_world (route53 sample_state) ''list_hosted_zones'' []
     = Inr (PDict [(''HostedZones'', PList [PDict [(''Name'', PStr escaped_zone_name)]])])
   \<and> named ''Name'' escaped_zone_name (PDict [(''Name'', PStr escaped_zone_name)])
   \<and> fst (list_route53_hosted_zones escaped_zone_world sample_state)
       = Inr (''Route 53 Hosted Zones: ['' @ [CHR 0x27] @ ''ex'' @ [CHR 0x5C, CHR 0x5C] @ ''100mple.com.''
              @ [CHR 0x27] @ '']'')
   \<and> \<not> py_in escaped_zone_name
        (''Route 53 Hosted Zones: ['' @ [CHR 0x27] @ ''ex'' @ [CHR 0x5C, CHR 0x5C] @ ''100mple.com.''
              @ [CHR 0x27] @ '']'')
   \<and> run_outcome error_stdout_world
        (''aws'' # py_split ''ssm get-parameter --name slo --query Parameter.Value --output text'')
        (cli_env sample_state)
       = Inr \<lparr>returncode = 0, stdout = ''Error budget: 5%'', stderr = []\<rparr>
   \<and> fst (aws_cli_command error_stdout_world
            ''ssm get-parameter --name slo --query Parameter.Value --output text'' sample_state)
       = Inr ''Error budget: 5%''
   \<and> startswith ''Error'' ''Error budget: 5%''"
proof -
  have a: "api_outcome escaped_zone_world (route53 sample_state) ''list_hosted_zones'' []
     = Inr (PDict [(''HostedZones'', PList [PDict [(''Name'', PStr escaped_zone_name)]])])"
    by (simp add: escaped_zone_world_def)
  have n: "named ''Name'' escaped_zone_name (PDict [(''Name'', PStr escaped_zone_name)])"
    by (simp add: named_def)
  have q: "repr_str escaped_zone_name
      = [CHR 0x27] @ ''ex'' @ [CHR 0x5C, CHR 0x5C] @ ''100mple.com.'' @ [CHR 0x27]"
    by (simp add: repr_str_def repr_quote_def escape_char_def isprintable_def py_ord_def
        escaped_zone_name_def)
  have b: "fst (list_route53_hosted_zones escaped_zone_world sample_state)
       = Inr (''Route 53 Hosted Zones: ['' @ [CHR 0x27] @ ''ex'' @ [CHR 0x5C, CHR 0x5C] @ ''100mple.com.''
              @ [CHR 0x27] @ '']'')"
    using q
    by (simp add: list_route53_hosted_zones_def list_route53_hosted_zones_body_def call_api_def
        fst_try_except a)
  have c: "\<not> py_in escaped_zone_name
        (''Route 53 Hosted Zones: ['' @ [CHR 0x27] @ ''ex'' @ [CHR 0x5C, CHR 0x5C] @ ''100mple.com.''
              @ [CHR 0x27] @ '']'')"
    by (simp add: escaped_zone_name_def)
  have d: "run_outcome error_stdout_world
        (''aws'' # py_split ''ssm get-parameter --name slo --query Parameter.Value --output text'')
        (cli_env sample_state)
       = Inr \<lparr>returncode = 0, stdout = ''Error budget: 5%'', stderr = []\<rparr>"
    by (simp add: error_stdout_world_def)
  have e: "fst (aws_cli_command error_stdout_world
            ''ssm get-parameter --name slo --query Parameter.Value --output text'' sample_state)
       = Inr ''Error budget: 5%''"
    by (simp add: aws_cli_command_def aws_cli_command_body_def fst_try_except d)
  have f: "startswith ''Error'' ''Error budget: 5%''"
    by simp
  show ?thesis
    by (intro conjI) (rule a n b c d e f)+
qed

theorem success_reports_witness:
  "list_all2 (named ''Name'') [''example.com.'', ''example.org.'']
     [PDict [(''Id'', PStr ''/hostedzone/Z1''), (''Name'', PStr ''example.com.'')],
      PDict [(''Id'', PStr ''/hostedzone/Z2''), (''Name'', PStr ''example.org.'')]]
   \<and> list_all plain_name [''example.com.'', ''example.org.'']
   \<and> fst (list_route53_hosted_zones sample_world sample_state)
       = Inr (''Route 53 Hosted Zones: ['' @ [CHR 0x27] @ ''example.com.'' @ [CHR 0x27] @ '', ''
              @ [CHR 0x27] @ ''example.org.'' @ [CHR 0x27] @ '']'')
   \<and> in_order [''example.com.'', ''example.org.'']
        (''Route 53 Hosted Zones: '' @ list_display [''example.com.'', ''example.org.''])
   \<and> list_all2 (named ''PolicyName'') [''ReadOnlyAccess'']
        [PDict [(''PolicyName'', PStr ''ReadOnlyAccess''),
                (''PolicyArn'', PStr ''arn:aws:iam::aws:policy/ReadOnlyAccess'')]]
   \<and> list_all plain_name [''ReadOnlyAccess'']
   \<and> fst (get_user_permissions sample_world ''take-home-coding'' sample_state)
       = Inr (''IAM user '' @ [CHR 0x27] @ ''take-home-coding'' @ [CHR 0x27] @ '' has these policies: [''
              @ [CHR 0x27] @ ''ReadOnlyAccess'' @ [CHR 0x27] @ '']'')
   \<and> in_order [''ReadOnlyAccess'']
        (''IAM user '' @ [CHR 0x27] @ ''take-home-coding'' @ [CHR 0x27] @ '' has these policies: ''
          @ list_display [''ReadOnlyAccess''])
   \<and> s3_constructed sample_world sample_state
   \<and> list_all2 (named ''Name'') [''logs'', ''assets''] [PDict [(''Name'', PStr ''logs'')], PDict [(''Name'', PStr ''assets'')]]
   \<and> list_all plain_name [''logs'', ''assets'']
   \<and> fst (list_s3_buckets sample_world sample_state)
       = Inr (''S3 Buckets: ['' @ [CHR 0x27] @ ''logs'' @ [CHR 0x27] @ '', '' @ [CHR 0x27] @ ''assets''
              @ [CHR 0x27] @ '']'')
   \<and> in_order [''logs'', ''assets''] (''S3 Buckets: '' @ list_display [''logs'', ''assets''])
   \<and> fst (get_ec2_instance_size sample_world ''10.0.1.112'' sample_state)
       = Inr ''EC2 instance 10.0.1.112 is of type: t2.micro''
   \<and> run_outcome sample_world (''aws'' # py_split ''ec2 describe-regions'') (cli_env sample_state)
       = Inr \<lparr>returncode = 0, stdout = ''us-east-1'', stderr = []\<rparr>
   \<and> fst (aws_cli_command sample_world ''ec2 describe-regions'' sample_state) = Inr ''us-east-1''"
proof -
  let ?zones = "[PDict [(''Id'', PStr ''/hostedzone/Z1''), (''Name'', PStr ''example.com.'')],
      PDict [(''Id'', PStr ''/hostedzone/Z2''), (''Name'', PStr ''example.org.'')]]"
  let ?policies = "[PDict [(''PolicyName'', PStr ''ReadOnlyAccess''),
                (''PolicyArn'', PStr ''arn:aws:iam::aws:policy/ReadOnlyAccess'')]]"
  let ?buckets = "[PDict [(''Name'', PStr ''logs'')], PDict [(''Name'', PStr ''assets'')]]"
  let ?inst = "[(''InstanceId'', PStr ''i-0abc''), (''InstanceType'', PStr ''t2.micro'')]"
  have z: "api_outcome sample_world (route53 sample_state) ''list_hosted_zones'' []
      = Inr (PDict [(''HostedZones'', PList ?zones), (''IsTruncated'', PBool False)])"
    "map_of [(''HostedZones'', PList ?zones), (''IsTruncated'', PBool False)] ''HostedZones'' = Some (PList ?zones)"
    "list_all2 (named ''Name'') [''example.com.'', ''example.org.''] ?zones"
    by (simp_all add: sample_world_def sample_response_def named_def)
  have zp: "list_all plain_name [''example.com.'', ''example.org.'']"
    and pp: "list_all plain_name [''ReadOnlyAccess'']"
    and bp: "list_all plain_name [''logs'', ''assets'']"
    by (simp_all add: plain_name_def isprintable_def py_ord_def)
  have p: "api_outcome sample_world (iam sample_state) ''list_attached_user_policies''
        [(''UserName'', PStr ''take-home-coding'')] = Inr (PDict [(''AttachedPolicies'', PList ?policies)])"
    "map_of [(''AttachedPolicies'', PList ?policies)] ''AttachedPolicies'' = Some (PList ?policies)"
    "list_all2 (named ''PolicyName'') [''ReadOnlyAccess''] ?policies"
    by (simp_all add: sample_world_def sample_response_def named_def)
  have b: "s3_constructed sample_world sample_state"
    "api_outcome sample_world (s3_handle sample_state) ''list_buckets'' []
      = Inr (PDict [(''Buckets'', PList ?buckets)])"
    "map_of [(''Buckets'', PList ?buckets)] ''Buckets'' = Some (PList ?buckets)"
    "list_all2 (named ''Name'') [''logs'', ''assets''] ?buckets"
    by (simp_all add: sample_world_def sample_response_def named_def s3_constructed_def)
  have e: "api_outcome sample_world (ec2 sample_state) ''describe_instances'' (ip_filter ''10.0.1.112'')
      = Inr (PDict [(''Reservations'', PList [PDict [(''Instances'', PList [PDict ?inst])]])])"
    "map_of [(''Reservations'', PList [PDict [(''Instances'', PList [PDict ?inst])]])] ''Reservations''
      = Some (PList [PDict [(''Instances'', PList [PDict ?inst])]])"
    "map_of [(''Instances'', PList [PDict ?inst])] ''Instances'' = Some (PList [PDict ?inst])"
    "map_of ?inst ''InstanceType'' = Some (PStr ''t2.micro'')"
    by (simp_all add: sample_world_def sample_response_def)
  have c: "run_outcome sample_world (''aws'' # py_split ''ec2 describe-regions'') (cli_env sample_state)
       = Inr \<lparr>returncode = 0, stdout = ''us-east-1'', stderr = []\<rparr>"
    "returncode \<lparr>returncode = 0, stdout = ''us-east-1'', stderr = []\<rparr> = 0"
    by (simp_all add: sample_world_def)
  note reports = success_reports [of sample_world sample_state
      "[(''HostedZones'', PList ?zones), (''IsTruncated'', PBool False)]" ?zones
      "[''example.com.'', ''example.org.'']"
      "''take-home-coding''" "[(''AttachedPolicies'', PList ?policies)]" ?policies "[''ReadOnlyAccess'']"
      "[(''Buckets'', PList ?buckets)]" ?buckets "[''logs'', ''assets'']"
      "''10.0.1.112''" "[(''Reservations'', PList [PDict [(''Instances'', PList [PDict ?inst])]])]"
      "[(''Instances'', PList [PDict ?inst])]" "[]" ?inst "[]" "''t2.micro''"
      "''ec2 describe-regions''" "\<lparr>returncode = 0, stdout = ''us-east-1'', stderr = []\<rparr>"]
  have r1: "fst (list_route53_hosted_zones sample_world sample_state)
       = Inr (''Route 53 Hosted Zones: '' @ list_display [''example.com.'', ''example.org.''])"
    and r2: "in_order [''example.com.'', ''example.org.'']
        (''Route 53 Hosted Zones: '' @ list_display [''example.com.'', ''example.org.''])"
    using reports z zp by blast+
  have r3: "fst (get_user_permissions sample_world ''take-home-coding'' sample_state)
       = Inr (''IAM user '' @ [CHR 0x27] @ ''take-home-coding'' @ [CHR 0x27] @ '' has these policies: ''
              @ list_display [''ReadOnlyAccess''])"
    and o3: "in_order [''ReadOnlyAccess'']
        (''IAM user '' @ [CHR 0x27] @ ''take-home-coding'' @ [CHR 0x27] @ '' has these policies: ''
          @ list_display [''ReadOnlyAccess''])"
    using reports p pp by blast+
  have r4: "fst (list_s3_buckets sample_world sample_state) = Inr (''S3 Buckets: '' @ list_display [''logs'', ''assets''])"
    and o4: "in_order [''logs'', ''assets''] (''S3 Buckets: '' @ list_display [''logs'', ''assets''])"
    using reports b bp by blast+
  have r5: "fst (get_ec2_instance_size sample_world ''10.0.1.112'' sample_state)
       = Inr (''EC2 instance '' @ ''10.0.1.112'' @ '' is of type: '' @ ''t2.micro'')"
    using reports e by blast
  have r6: "fst (aws_cli_command sample_world ''ec2 describe-regions'' sample_state)
       = Inr (stdout \<lparr>returncode = 0, stdout = ''us-east-1'', stderr = []\<rparr>)"
    using reports c by blast
  have shown: "list_display [''example.com.'', ''example.org.'']
       = ''['' @ [CHR 0x27] @ ''example.com.'' @ [CHR 0x27] @ '', '' @ [CHR 0x27] @ ''example.org.'' @ [CHR 0x27] @ '']''"
    "list_display [''ReadOnlyAccess''] = ''['' @ [CHR 0x27] @ ''ReadOnlyAccess'' @ [CHR 0x27] @ '']''"
    "list_display [''logs'', ''assets'']
       = ''['' @ [CHR 0x27] @ ''logs'' @ [CHR 0x27] @ '', '' @ [CHR 0x27] @ ''assets'' @ [CHR 0x27] @ '']''"
    by (simp_all add: list_display_def repr_str_def repr_quote_def escape_char_def isprintable_def py_ord_def)
  show ?thesis
    using z(3) zp pp bp p(3) b(1,4) c(1) r1 r2 r3 o3 r4 o4 r5 r6 by (simp add: shown)
qed

end
